theory Spec2Isabelle
  imports Main
begin

section \<open>Values of the host language\<close>

text \<open>
  A JavaScript \<open>Map\<close> keeps its keys in insertion order; \<open>set\<close> on a key that is
  present replaces the value where it stands, on a new key appends. It is an association
  list here, read with \<open>map_of\<close>.
\<close>

fun map_set :: "'k \<Rightarrow> 'v \<Rightarrow> ('k \<times> 'v) list \<Rightarrow> ('k \<times> 'v) list" where
  "map_set k v [] = [(k, v)]"
| "map_set k v ((k', v') # m) =
     (if k = k' then (k, v) # m else (k', v') # map_set k v m)"

definition map_has :: "'k \<Rightarrow> ('k \<times> 'v) list \<Rightarrow> bool" where
  "map_has k m = (map_of m k \<noteq> None)"

text \<open>An optional string is truthy when it is there and not empty.\<close>

definition truthy :: "string option \<Rightarrow> bool" where
  "truthy s = (case s of None \<Rightarrow> False | Some t \<Rightarrow> t \<noteq> [])"

text \<open>
  Numbers printed into template literals. The numbers printed are clock readings, status
  codes and indices of tool calls: integers, taken below \<open>1e21\<close> in magnitude, which are printed
  in decimal.
\<close>

definition digit :: "nat \<Rightarrow> char" where
  "digit d = char_of (48 + d)"

fun show_nat :: "nat \<Rightarrow> string" where
  "show_nat n = (if n < 10 then [digit n] else show_nat (n div 10) @ [digit (n mod 10)])"

definition show_int :: "int \<Rightarrow> string" where
  "show_int i = (if i < 0 then CHR ''-'' # show_nat (nat (- i)) else show_nat (nat i))"

text \<open>
  A string is the list of its code units, which are below 256 here. \<open>String.prototype.trim\<close>
  strips white space and line terminators at both ends; below 256 these are the space,
  the tabulators, the line feed, the form feed, the carriage return and the no-break
  space. \<open>split("\n")\<close> cuts at every line feed.
\<close>

definition is_space :: "char \<Rightarrow> bool" where
  "is_space c =
     (c \<in> set [CHR '' '', CHR 0x09, CHR 0x0A, CHR 0x0B, CHR 0x0C, CHR 0x0D, CHR 0xA0])"

definition trim :: "string \<Rightarrow> string" where
  "trim s = rev (dropWhile is_space (rev (dropWhile is_space s)))"

fun split_lines :: "string \<Rightarrow> string list" where
  "split_lines [] = [[]]"
| "split_lines (c # cs) =
     (if c = CHR 0x0A then [] # split_lines cs
      else (case split_lines cs of l # ls \<Rightarrow> (c # l) # ls | [] \<Rightarrow> [[c]]))"

definition startsWith :: "string \<Rightarrow> string \<Rightarrow> bool" where
  "startsWith s p = (take (length p) s = p)"

text \<open>
  A value that the code uses as a text without testing that it is one: a string,
  \<open>undefined\<close>, or another value, kept as the text \<open>JSON.stringify\<close> prints for it.
  Calling \<open>startsWith\<close> on it throws unless it is a string.
\<close>

datatype content = Text string | Undefined | NotText string

fun is_text :: "content \<Rightarrow> bool" where
  "is_text (Text t) = True"
| "is_text Undefined = False"
| "is_text (NotText v) = False"

text \<open>The text of the engine when a member of \<open>undefined\<close> is read.\<close>

definition cannot_read :: "string \<Rightarrow> string" where
  "cannot_read name =
     ''Cannot read properties of undefined (reading '' @ [CHR 0x27] @ name @ [CHR 0x27] @ '')''"


section \<open>Errors\<close>

text \<open>
  Every \<open>throw new Error(...)\<close> of the source is one constructor; \<open>message\<close> is the
  text the source gives it. \<open>HandshakeError\<close> keeps the error it wraps. A
  \<open>TypeError\<close> is thrown by the engine, not by the source, and carries the text that
  V8 gives it.
\<close>

datatype error =
    ConfigError
  | ServerNotFound string
  | DirectRequestUnsupported string
  | FetchError string
  | HTTPStatusError nat string
  | FramingError string
  | JsonSyntaxError string
  | ProtocolError string
  | HandshakeError string error
  | StartupTimeout string
  | SpawnError string
  | NotInitialized string
  | ToolNotFound string
  | ToolCallUnsupported string
  | EmptyArguments
  | BackendError string
  | TypeError string

fun message :: "error \<Rightarrow> string" where
  "message ConfigError =
     ''Invalid server configuration: must specify either command or url/type''"
| "message (ServerNotFound n) = ''MCP server not found: '' @ n"
| "message (DirectRequestUnsupported n) =
     ''Direct MCP requests not supported for command-based servers: '' @ n"
| "message (FetchError m) = m"
| "message (HTTPStatusError code txt) = ''HTTP '' @ show_nat code @ '': '' @ txt"
| "message (FramingError body) = ''Invalid SSE response format: '' @ body"
| "message (JsonSyntaxError m) = m"
| "message (ProtocolError m) = ''MCP Error: '' @ m"
| "message (HandshakeError n e) =
     ''Failed to initialize HTTP server '' @ n @ '': '' @ message e"
| "message (StartupTimeout n) = ''Command server '' @ n @ '' failed to start within timeout''"
| "message (SpawnError m) = m"
| "message (NotInitialized n) = ''Server '' @ n @ '' is not initialized''"
| "message (ToolNotFound t) = ''Tool '' @ t @ '' not found on any connected MCP server''"
| "message (ToolCallUnsupported n) =
     ''Command-based tool calling not yet implemented for '' @ n"
| "message EmptyArguments = ''Empty arguments''"
| "message (BackendError m) = m"
| "message (TypeError m) = m"


section \<open>Server definitions and instances\<close>

datatype http_kind = KindHttp | KindStreamableHttp

datatype server_type = Command | Http | StreamableHttp

fun type_of_kind :: "http_kind \<Rightarrow> server_type" where
  "type_of_kind KindHttp = Http"
| "type_of_kind KindStreamableHttp = StreamableHttp"

record server_definition =
  def_command :: "string option"
  def_args :: "string list option"
  def_type :: "http_kind option"
  def_url :: "string option"
  def_headers :: "(string \<times> string) list option"
  def_timeout :: "nat option"
  def_serverInstructions :: "bool option"
  def_env :: "(string \<times> string) list option"

record server_instance =
  inst_name :: string
  inst_config :: server_definition
  inst_type :: server_type
  inst_process :: "nat option"
  inst_sessionId :: "string option"
  inst_initialized :: bool
  inst_lastError :: "string option"
  inst_startTime :: "int option"

datatype connection_status = Connected | Disconnected | ErrorStatus | Starting

text \<open>
  The status of a server as \<open>_getServerStatus\<close> builds it, without the \<open>pid\<close> member:
  the process id of a subprocess is the operating system's and is not part of the model.
\<close>

record server_status =
  status_name :: string
  status_type :: server_type
  status_status :: connection_status
  status_url :: "string option"
  status_lastError :: "string option"
  status_uptime :: "int option"


section \<open>The protocol and the world outside\<close>

record mcp_tool =
  mt_name :: string
  mt_description :: string
  mt_inputSchema :: string

text \<open>
  The \<open>result\<close> member of a decoded payload: \<open>res_tools\<close> is its \<open>tools\<close> array,
  \<open>res_text\<close> what the content extraction of the orchestrator selects from it (the
  \<open>text\<close> member of the first content part when it is truthy, which is a string or
  another value, else a string \<open>content\<close>, else the result when it is a string) and
  \<open>Undefined\<close> when it selects nothing, \<open>res_json\<close> what \<open>JSON.stringify\<close> prints
  for the result.
\<close>

record rpc_result =
  res_tools :: "mcp_tool list option"
  res_text :: content
  res_json :: string

datatype result_member = Absent | Falsy string | Truthy rpc_result

text \<open>
  A decoded payload. \<open>rp_error = Some m\<close> when the payload has a truthy \<open>error\<close>
  member, \<open>m\<close> being what \<open>error.message\<close> prints as. A payload is a value whose
  members can be read: the payload \<open>null\<close> is not covered.
\<close>

record rpc_payload =
  rp_error :: "string option"
  rp_result :: result_member

datatype rpc_call =
    Initialize
  | NotificationsInitialized
  | ToolsList
  | ToolsCall string string

text \<open>
  What \<open>fetch\<close> is given: the address, the headers, the call that the body encodes, and
  the time of the abort signal when there is one. What comes of it: \<open>FetchFailed m\<close> when
  \<open>fetch\<close>, or the reading of the body of a response of success status, throws with the
  message \<open>m\<close>; else the response by its \<open>ok\<close> flag, its status, its status text, its
  body and its \<open>mcp-session-id\<close> header.
\<close>

record http_request =
  hr_url :: "string option"
  hr_headers :: "(string \<times> string) list"
  hr_call :: rpc_call
  hr_timeout :: "nat option"

datatype http_reply =
    FetchFailed string
  | HttpReply bool nat string string "string option"

datatype spawn_outcome = Launched | LaunchError string | NoLaunchSignal


section \<open>Completion requests, responses and stream chunks\<close>

record tool =
  tool_name :: string
  tool_description :: string
  tool_parameters :: string
  tool_mcpServerName :: "string option"
  tool_isPerRequest :: bool

record tool_call =
  tc_id :: string
  tc_name :: string
  tc_arguments :: string

text \<open>A message of role \<open>tool\<close>.\<close>

record tool_result =
  tr_tool_call_id :: string
  tr_content :: content

record assistant_message =
  am_content :: "string option"
  am_tool_calls :: "tool_call list option"

datatype chat_message =
    PlainMessage string string
  | AssistantMessage assistant_message
  | ToolMessage tool_result

record chat_request =
  req_model :: string
  req_messages :: "chat_message list"
  req_tools :: "tool list option"
  req_tool_choice :: "string option"
  req_stream :: bool
  req_mcpServers :: "(string \<times> server_definition) list option"
  req_toolExecutionFeedback :: "bool option"
  req_other :: "(string \<times> string) list"

record chat_response =
  resp_message :: "assistant_message option"
  resp_other :: string
  resp_mcpToolResults :: "tool_result list option"
  resp_originalToolCalls :: "tool_call list option"

record tool_call_delta =
  tcd_index :: int
  tcd_id :: "string option"
  tcd_name :: "string option"
  tcd_arguments :: "string option"

record chunk =
  chunk_content :: "string option"
  chunk_tool_calls :: "tool_call_delta list option"
  chunk_finish_reason :: "string option"
  chunk_other :: string

text \<open>
  A stream that ends: its chunks, each with the reading of the clock while it is handled,
  and the error it ends with when reading it fails.
\<close>

record chunk_stream =
  strm_chunks :: "(int \<times> chunk) list"
  strm_failure :: "string option"

datatype completion = Response chat_response | Stream chunk_stream

text \<open>
  What the program does not own: variable substitution, the operating system's launch of
  a subprocess, the HTTP exchange, the JSON decoder (on a payload, and on the arguments
  text of a tool call), the schema rewriting for one backend, and the completion backend,
  once for a single response and once for a stream.
\<close>

record world =
  w_resolve :: "string \<Rightarrow> string"
  w_spawn :: "string \<Rightarrow> string list \<Rightarrow> (string \<times> string) list option \<Rightarrow> spawn_outcome"
  w_fetch :: "http_request \<Rightarrow> http_reply"
  w_json_parse :: "string \<Rightarrow> string + rpc_payload"
  w_parse_arguments :: "string \<Rightarrow> string + string"
  w_sanitize :: "tool \<Rightarrow> tool"
  w_complete :: "chat_request \<Rightarrow> string + chat_response"
  w_complete_streaming :: "chat_request \<Rightarrow> string + chunk_stream"

text \<open>
  The fields of the client object, and what it has done to the world: the handles of the
  subprocesses it launched that run (\<open>kill\<close> takes a handle out), the HTTP exchanges and
  the backend calls it made, in order.

  The clock is a parameter: an operation is given the reading \<open>now\<close> that its calls of
  \<open>Date.now()\<close> return, and a stream gives one reading with each chunk.
\<close>

record sdk_state =
  mcpServersConfig :: "(string \<times> server_definition) list"
  mcpEnabled :: bool
  mcpServerInstances :: "(string \<times> server_instance) list"
  mcpToolsCache :: "tool list option"
  mcpLastCacheTime :: int
  toolToServerMap :: "(string \<times> string) list"
  mcpClient :: bool
  next_handle :: nat
  running :: "nat list"
  http_log :: "http_request list"
  backend_log :: "chat_request list"

definition CACHE_DURATION :: int where
  "CACHE_DURATION = 30000"

definition kill :: "nat \<Rightarrow> sdk_state \<Rightarrow> sdk_state" where
  "kill h s = s\<lparr>running := removeAll h (running s)\<rparr>"


section \<open>Server registry and transport client\<close>

text \<open>
  \<open>processServerConfig\<close> substitutes variables in the url, the header values and the
  arguments; \<open>_getServerType\<close> throws for a definition that names no transport.
\<close>

definition processServerConfig :: "world \<Rightarrow> server_definition \<Rightarrow> server_definition" where
  "processServerConfig w config =
     config\<lparr>
       def_url := (if truthy (def_url config) then map_option (w_resolve w) (def_url config)
                   else def_url config),
       def_headers := map_option (map (\<lambda>(key, v). (key, w_resolve w v))) (def_headers config),
       def_args := map_option (map (w_resolve w)) (def_args config)\<rparr>"

definition getServerType :: "server_definition \<Rightarrow> error + server_type" where
  "getServerType config =
     (if truthy (def_command config) then Inr Command
      else (case def_type config of
              Some k \<Rightarrow> Inr (type_of_kind k)
            | None \<Rightarrow> if truthy (def_url config) then Inr StreamableHttp else Inl ConfigError))"

text \<open>
  The request of one exchange: the headers of \<open>_mcpRequest\<close>, with the session id when
  there is one, and the line of the body that carries the payload. The headers are an
  object built by spreading: a name that comes again takes the new value and keeps its
  place. (Names are taken not to be array indices, which an object lists first.)
\<close>

definition request_headers :: "string option \<Rightarrow> server_definition \<Rightarrow> (string \<times> string) list" where
  "request_headers sessionId config =
     fold (\<lambda>(name, v) headers. map_set name v headers)
       ((if truthy sessionId then [(''mcp-session-id'', the sessionId)] else [])
        @ (case def_headers config of None \<Rightarrow> [] | Some hs \<Rightarrow> hs))
       [(''Content-Type'', ''application/json''),
        (''Accept'', ''application/json, text/event-stream'')]"

definition find_data_line :: "string \<Rightarrow> string option" where
  "find_data_line text =
     map_option (drop 6) (find (\<lambda>line. startsWith line ''data: '') (split_lines (trim text)))"

definition http_request_of :: "server_definition \<Rightarrow> rpc_call \<Rightarrow> string option \<Rightarrow> http_request" where
  "http_request_of config call sessionId =
     \<lparr>hr_url = def_url config,
      hr_headers = request_headers sessionId config,
      hr_call = call,
      hr_timeout = (case def_timeout config of
                      None \<Rightarrow> None
                    | Some t \<Rightarrow> if t = 0 then None else Some t)\<rparr>"

text \<open>
  One protocol exchange. The result is the decoded payload and the session header of the
  response.
\<close>

definition mcpRequest ::
  "world \<Rightarrow> sdk_state \<Rightarrow> string \<Rightarrow> rpc_call \<Rightarrow> string option \<Rightarrow> server_instance option
     \<Rightarrow> (error + rpc_payload \<times> string option) \<times> sdk_state" where
  "mcpRequest w s serverName call sessionId customInstance =
     (case (case customInstance of Some i \<Rightarrow> Some i
            | None \<Rightarrow> map_of (mcpServerInstances s) serverName) of
        None \<Rightarrow> (Inl (ServerNotFound serverName), s)
      | Some instance \<Rightarrow>
          if inst_type instance = Command then (Inl (DirectRequestUnsupported serverName), s)
          else
            let req = http_request_of (inst_config instance) call sessionId;
                s' = s\<lparr>http_log := http_log s @ [req]\<rparr>
            in (case w_fetch w req of
                  FetchFailed m \<Rightarrow> (Inl (FetchError m), s')
                | HttpReply ok code statusText text session \<Rightarrow>
                    if \<not> ok then (Inl (HTTPStatusError code statusText), s')
                    else (case find_data_line text of
                            None \<Rightarrow> (Inl (FramingError text), s')
                          | Some dataLine \<Rightarrow>
                              if dataLine = [] then (Inl (FramingError text), s')
                              else (case w_json_parse w dataLine of
                                      Inl m \<Rightarrow> (Inl (JsonSyntaxError m), s')
                                    | Inr data \<Rightarrow>
                                        (case rp_error data of
                                           Some m \<Rightarrow> (Inl (ProtocolError m), s')
                                         | None \<Rightarrow> (Inr (data, session), s'))))))"

text \<open>
  Starting a subprocess: the handle is stored on the instance at once; the launch signal
  marks the instance initialized, a launch error or no signal within the startup timeout
  is the failure of the start.
\<close>

definition initializeCommandServer ::
  "world \<Rightarrow> sdk_state \<Rightarrow> server_instance \<Rightarrow> error option \<times> server_instance \<times> sdk_state" where
  "initializeCommandServer w s instance =
     (let config = inst_config instance;
          h = next_handle s;
          s1 = s\<lparr>next_handle := Suc h\<rparr>;
          instance1 = instance\<lparr>inst_process := Some h\<rparr>
      in (case w_spawn w (case def_command config of Some c \<Rightarrow> c | None \<Rightarrow> [])
                 (case def_args config of Some a \<Rightarrow> a | None \<Rightarrow> []) (def_env config) of
            Launched \<Rightarrow>
              (None, instance1\<lparr>inst_initialized := True\<rparr>, s1\<lparr>running := running s1 @ [h]\<rparr>)
          | LaunchError m \<Rightarrow> (Some (SpawnError m), instance1, s1)
          | NoLaunchSignal \<Rightarrow> (Some (StartupTimeout (inst_name instance)), instance1, s1)))"

text \<open>
  The handshake of an HTTP server. The exchange names the server only: the instance is
  looked up in the registry of the client.
\<close>

definition initializeHttpServer ::
  "world \<Rightarrow> sdk_state \<Rightarrow> server_instance \<Rightarrow> error option \<times> server_instance \<times> sdk_state" where
  "initializeHttpServer w s instance =
     (let name = inst_name instance in
      case mcpRequest w s name Initialize None None of
        (Inl e, s1) \<Rightarrow> (Some (HandshakeError name e), instance, s1)
      | (Inr (data, sessionId), s1) \<Rightarrow>
          (case rp_result data of
             Truthy r \<Rightarrow>
               let s2 = snd (mcpRequest w s1 name NotificationsInitialized sessionId None)
               in (None, instance\<lparr>inst_sessionId := sessionId, inst_initialized := True\<rparr>, s2)
           | _ \<Rightarrow> (None, instance, s1)))"

text \<open>
  The instance a start attempt creates, and the start sequence of its transport.
\<close>

definition new_instance :: "string \<Rightarrow> server_definition \<Rightarrow> server_type \<Rightarrow> int \<Rightarrow> server_instance" where
  "new_instance name config serverType now =
     \<lparr>inst_name = name, inst_config = config, inst_type = serverType, inst_process = None,
      inst_sessionId = None, inst_initialized = False, inst_lastError = None,
      inst_startTime = Some now\<rparr>"

definition start_sequence ::
  "world \<Rightarrow> sdk_state \<Rightarrow> server_instance \<Rightarrow> error option \<times> server_instance \<times> sdk_state" where
  "start_sequence w s instance =
     (if inst_type instance = Command then initializeCommandServer w s instance
      else initializeHttpServer w s instance)"

definition record_failure :: "error option \<Rightarrow> server_instance \<Rightarrow> server_instance" where
  "record_failure err instance =
     (case err of None \<Rightarrow> instance
      | Some e \<Rightarrow> instance\<lparr>inst_lastError := Some (message e)\<rparr>)"

text \<open>
  One start attempt of the registry. The result is the error the attempt is rejected with,
  if any; a failure of the start sequence itself is caught and stored on the instance.
\<close>

definition initializeMCPServer ::
  "world \<Rightarrow> int \<Rightarrow> sdk_state \<Rightarrow> string \<Rightarrow> error option \<times> sdk_state" where
  "initializeMCPServer w now s serverName =
     (case map_of (mcpServersConfig s) serverName of
        None \<Rightarrow> (None, s)
      | Some config \<Rightarrow>
          let processedConfig = processServerConfig w config in
          (case getServerType processedConfig of
             Inl e \<Rightarrow> (Some e, s)
           | Inr serverType \<Rightarrow>
               let instance = new_instance serverName processedConfig serverType now;
                   s1 = s\<lparr>mcpServerInstances := map_set serverName instance (mcpServerInstances s)\<rparr>
               in (case start_sequence w s1 instance of
                     (err, instance', s2) \<Rightarrow>
                       (None, s2\<lparr>mcpServerInstances :=
                                     map_set serverName (record_failure err instance')
                                       (mcpServerInstances s2)\<rparr>))))"


section \<open>Tool catalog\<close>

definition result_tools :: "rpc_payload \<Rightarrow> mcp_tool list" where
  "result_tools data =
     (case rp_result data of
        Truthy r \<Rightarrow> (case res_tools r of Some ts \<Rightarrow> ts | None \<Rightarrow> [])
      | _ \<Rightarrow> [])"

definition format_tool :: "string \<Rightarrow> bool \<Rightarrow> mcp_tool \<Rightarrow> tool" where
  "format_tool serverName perRequest t =
     \<lparr>tool_name = mt_name t, tool_description = mt_description t,
      tool_parameters = mt_inputSchema t, tool_mcpServerName = Some serverName,
      tool_isPerRequest = perRequest\<rparr>"

text \<open>The loop of \<open>_getMCPToolsInternal\<close> over the registry's entries.\<close>

fun collect_tools ::
  "world \<Rightarrow> (string \<times> server_instance) list \<Rightarrow> tool list \<Rightarrow> sdk_state \<Rightarrow> tool list \<times> sdk_state" where
  "collect_tools w [] allTools s = (allTools, s)"
| "collect_tools w ((serverName, instance) # rest) allTools s =
     (if \<not> inst_initialized instance then collect_tools w rest allTools s
      else if inst_type instance = Command then collect_tools w rest allTools s
      else (case mcpRequest w s serverName ToolsList (inst_sessionId instance) None of
              (Inl e, s1) \<Rightarrow> collect_tools w rest allTools s1
            | (Inr (data, session), s1) \<Rightarrow>
                let tools = result_tools data;
                    s2 = s1\<lparr>toolToServerMap :=
                              fold (\<lambda>t m. map_set (mt_name t) serverName m) tools
                                (toolToServerMap s1)\<rparr>
                in collect_tools w rest (allTools @ map (format_tool serverName False) tools) s2))"

definition getMCPToolsInternal :: "world \<Rightarrow> sdk_state \<Rightarrow> tool list \<times> sdk_state" where
  "getMCPToolsInternal w s =
     collect_tools w (mcpServerInstances s) [] (s\<lparr>toolToServerMap := []\<rparr>)"

text \<open>
  Batch initialization. Every start attempt is made; \<open>Promise.allSettled\<close> drops what an
  attempt is rejected with. An attempt reads and writes the registry entry of its own name
  only, and what a server replies does not depend on the other exchanges, so the attempts
  are taken one after the other, in the order of the configuration. The code interleaves
  them: the first request of every attempt is sent before a reply is read. The log of
  exchanges after a batch lists them attempt by attempt, which is not the order of sending
  when more than one server is reached over HTTP.
\<close>

definition initializeMCP :: "world \<Rightarrow> int \<Rightarrow> sdk_state \<Rightarrow> sdk_state" where
  "initializeMCP w now s =
     (if \<not> mcpEnabled s \<or> mcpServersConfig s = [] then s
      else
        let s1 = s\<lparr>mcpClient := True\<rparr>;
            serverNames = map fst (mcpServersConfig s1);
            s2 = fold (\<lambda>serverName st. snd (initializeMCPServer w now st serverName))
                   serverNames s1;
            connectedServers = filter (\<lambda>(n, instance). inst_initialized instance)
                                 (mcpServerInstances s2)
        in if connectedServers \<noteq> [] then snd (getMCPToolsInternal w s2) else s2)"

definition getMCPTools :: "world \<Rightarrow> int \<Rightarrow> sdk_state \<Rightarrow> tool list \<times> sdk_state" where
  "getMCPTools w now s =
     (if mcpToolsCache s \<noteq> None \<and> now - mcpLastCacheTime s < CACHE_DURATION
      then (the (mcpToolsCache s), s)
      else if \<not> mcpEnabled s \<or> mcpServerInstances s = [] then ([], s)
      else (let (allTools, s1) = getMCPToolsInternal w s
            in (allTools, s1\<lparr>mcpToolsCache := Some allTools, mcpLastCacheTime := now\<rparr>)))"

definition getServerStatus :: "int \<Rightarrow> sdk_state \<Rightarrow> string \<Rightarrow> error + server_status" where
  "getServerStatus now s serverName =
     (case map_of (mcpServerInstances s) serverName of
        None \<Rightarrow> Inl (ServerNotFound serverName)
      | Some instance \<Rightarrow>
          Inr \<lparr>status_name = serverName,
               status_type = inst_type instance,
               status_status =
                 (if inst_initialized instance then Connected
                  else if truthy (inst_lastError instance) then ErrorStatus
                  else Disconnected),
               status_url =
                 (if inst_type instance \<noteq> Command then def_url (inst_config instance)
                  else None),
               status_lastError = inst_lastError instance,
               status_uptime =
                 (case inst_startTime instance of
                    None \<Rightarrow> None
                  | Some t \<Rightarrow> if t \<noteq> 0 then Some (now - t) else None)\<rparr>)"

definition restartMCPServer ::
  "world \<Rightarrow> int \<Rightarrow> sdk_state \<Rightarrow> string \<Rightarrow> error option \<times> sdk_state" where
  "restartMCPServer w now s serverName =
     (case map_of (mcpServerInstances s) serverName of
        None \<Rightarrow> (Some (ServerNotFound serverName), s)
      | Some instance \<Rightarrow>
          let s1 = (case inst_process instance of
                      Some h \<Rightarrow> if inst_type instance = Command then kill h s else s
                    | None \<Rightarrow> s);
              instance' = instance\<lparr>inst_initialized := False, inst_lastError := None,
                                    inst_startTime := Some now\<rparr>;
              s2 = s1\<lparr>mcpServerInstances :=
                        map_set serverName instance' (mcpServerInstances s1)\<rparr>
          in initializeMCPServer w now s2 serverName)"


section \<open>Per-request servers\<close>

definition temp_name :: "string \<Rightarrow> int \<Rightarrow> string" where
  "temp_name serverName now = ''temp_'' @ serverName @ ''_'' @ show_int now"

text \<open>
  The loop of \<open>_initializePerRequestServers\<close>. The map of the instances started so far
  is local to the function: when a definition names no transport the loop is left by the
  exception and the map is not returned.
\<close>

fun initializePerRequestServers_loop ::
  "world \<Rightarrow> int \<Rightarrow> (string \<times> server_definition) list \<Rightarrow> (string \<times> server_instance) list
     \<Rightarrow> sdk_state \<Rightarrow> (error + (string \<times> server_instance) list) \<times> sdk_state" where
  "initializePerRequestServers_loop w now [] perRequestServers s = (Inr perRequestServers, s)"
| "initializePerRequestServers_loop w now ((serverName, config) # rest) perRequestServers s =
     (let tempServerName = temp_name serverName now;
          processedConfig = processServerConfig w config
      in (case getServerType processedConfig of
            Inl e \<Rightarrow> (Inl e, s)
          | Inr serverType \<Rightarrow>
              (case start_sequence w s
                      (new_instance tempServerName processedConfig serverType now) of
                 (err, instance', s1) \<Rightarrow>
                   initializePerRequestServers_loop w now rest
                     (map_set tempServerName (record_failure err instance') perRequestServers)
                     s1)))"

definition initializePerRequestServers ::
  "world \<Rightarrow> int \<Rightarrow> sdk_state \<Rightarrow> (string \<times> server_definition) list
     \<Rightarrow> (error + (string \<times> server_instance) list) \<times> sdk_state" where
  "initializePerRequestServers w now s mcpServersConfig' =
     initializePerRequestServers_loop w now mcpServersConfig' [] s"

fun getToolsFromPerRequestServers_loop ::
  "world \<Rightarrow> (string \<times> server_instance) list \<Rightarrow> tool list \<Rightarrow> sdk_state \<Rightarrow> tool list \<times> sdk_state" where
  "getToolsFromPerRequestServers_loop w [] allTools s = (allTools, s)"
| "getToolsFromPerRequestServers_loop w ((serverName, instance) # rest) allTools s =
     (if \<not> inst_initialized instance then getToolsFromPerRequestServers_loop w rest allTools s
      else if inst_type instance = Command
        then getToolsFromPerRequestServers_loop w rest allTools s
      else (case mcpRequest w s serverName ToolsList (inst_sessionId instance) (Some instance) of
              (Inl e, s1) \<Rightarrow> getToolsFromPerRequestServers_loop w rest allTools s1
            | (Inr (data, session), s1) \<Rightarrow>
                getToolsFromPerRequestServers_loop w rest
                  (allTools @ map (format_tool serverName True) (result_tools data)) s1))"

definition getToolsFromPerRequestServers ::
  "world \<Rightarrow> sdk_state \<Rightarrow> (string \<times> server_instance) list \<Rightarrow> tool list \<times> sdk_state" where
  "getToolsFromPerRequestServers w s perRequestServers =
     getToolsFromPerRequestServers_loop w perRequestServers [] s"

fun cleanupPerRequestServers :: "(string \<times> server_instance) list \<Rightarrow> sdk_state \<Rightarrow> sdk_state" where
  "cleanupPerRequestServers [] s = s"
| "cleanupPerRequestServers ((serverName, instance) # rest) s =
     cleanupPerRequestServers rest
       (case inst_process instance of
          Some h \<Rightarrow> if inst_type instance = Command then kill h s else s
        | None \<Rightarrow> s)"


section \<open>Calling a tool\<close>

definition callToolOnServer ::
  "world \<Rightarrow> sdk_state \<Rightarrow> string \<Rightarrow> string \<Rightarrow> string \<Rightarrow> (error + result_member) \<times> sdk_state" where
  "callToolOnServer w s serverName toolName args =
     (case map_of (mcpServerInstances s) serverName of
        None \<Rightarrow> (Inl (ServerNotFound serverName), s)
      | Some instance \<Rightarrow>
          if \<not> inst_initialized instance then (Inl (NotInitialized serverName), s)
          else if inst_type instance = Command then (Inl (ToolCallUnsupported serverName), s)
          else (case mcpRequest w s serverName (ToolsCall toolName args)
                       (inst_sessionId instance) None of
                  (Inl e, s1) \<Rightarrow> (Inl e, s1)
                | (Inr (data, session), s1) \<Rightarrow> (Inr (rp_result data), s1)))"

definition callToolByName ::
  "world \<Rightarrow> sdk_state \<Rightarrow> string \<Rightarrow> string \<Rightarrow> (error + result_member) \<times> sdk_state" where
  "callToolByName w s toolName args =
     (case map_of (toolToServerMap s) toolName of
        None \<Rightarrow> (Inl (ToolNotFound toolName), s)
      | Some serverName \<Rightarrow>
          if serverName = [] then (Inl (ToolNotFound toolName), s)
          else callToolOnServer w s serverName toolName args)"

text \<open>
  \<open>_callToolWithServers\<close>: the per-request servers first, each asked for its tool list;
  an error of either exchange moves on to the next server; then the global routing table.
\<close>

fun callToolWithServers_loop ::
  "world \<Rightarrow> string \<Rightarrow> string \<Rightarrow> (string \<times> server_instance) list \<Rightarrow> sdk_state
     \<Rightarrow> (error + result_member) \<times> sdk_state" where
  "callToolWithServers_loop w toolName args [] s = callToolByName w s toolName args"
| "callToolWithServers_loop w toolName args ((serverName, instance) # rest) s =
     (if \<not> inst_initialized instance then callToolWithServers_loop w toolName args rest s
      else if inst_type instance = Command then callToolWithServers_loop w toolName args rest s
      else (case mcpRequest w s serverName ToolsList (inst_sessionId instance) (Some instance) of
              (Inl e, s1) \<Rightarrow> callToolWithServers_loop w toolName args rest s1
            | (Inr (data, session), s1) \<Rightarrow>
                if list_ex (\<lambda>t. mt_name t = toolName) (result_tools data)
                then (case mcpRequest w s1 serverName (ToolsCall toolName args)
                             (inst_sessionId instance) (Some instance) of
                        (Inl e, s2) \<Rightarrow> callToolWithServers_loop w toolName args rest s2
                      | (Inr (result, session'), s2) \<Rightarrow> (Inr (rp_result result), s2))
                else callToolWithServers_loop w toolName args rest s1))"

definition callToolWithServers ::
  "world \<Rightarrow> sdk_state \<Rightarrow> string \<Rightarrow> string \<Rightarrow> (string \<times> server_instance) list
     \<Rightarrow> (error + result_member) \<times> sdk_state" where
  "callToolWithServers w s toolName args perRequestServers =
     callToolWithServers_loop w toolName args perRequestServers s"

text \<open>
  The content of the tool-result message for what a call returned. For a result that is
  not there, \<open>JSON.stringify\<close> gives \<open>undefined\<close> and reading its members throws into
  the fallback, which gives \<open>undefined\<close> again. A falsy result carries the text the
  extraction ends with. A truthy result gives what the extraction selects, and the text
  that \<open>JSON.stringify\<close> prints for it when the extraction selects nothing.
\<close>

fun content_of :: "result_member \<Rightarrow> content" where
  "content_of Absent = Undefined"
| "content_of (Falsy txt) = Text txt"
| "content_of (Truthy r) = (case res_text r of Undefined \<Rightarrow> Text (res_json r) | c \<Rightarrow> c)"

text \<open>
  What both orchestration paths do with a tool call whose arguments are decoded: the test
  of the global routing table, the test of the client, the call, and the exception handler
  around them.
\<close>

datatype dispatch_outcome =
    Completed content
  | NotConnected
  | External
  | Failed error

definition dispatch_tool_call ::
  "world \<Rightarrow> sdk_state \<Rightarrow> string \<Rightarrow> string \<Rightarrow> (string \<times> server_instance) list
     \<Rightarrow> dispatch_outcome \<times> sdk_state" where
  "dispatch_tool_call w s name args perRequestServers =
     (if map_has name (toolToServerMap s) then
        (if mcpEnabled s \<and> mcpClient s \<and> mcpServerInstances s \<noteq> [] then
           (case callToolWithServers w s name args perRequestServers of
              (Inl e, s1) \<Rightarrow> (Failed e, s1)
            | (Inr result, s1) \<Rightarrow> (Completed (content_of result), s1))
         else (NotConnected, s))
      else (External, s))"

fun outcome_content :: "string \<Rightarrow> dispatch_outcome \<Rightarrow> content" where
  "outcome_content name (Completed c) = c"
| "outcome_content name NotConnected =
     Text (''Tool '' @ name @ '' is not available (MCP server not connected)'')"
| "outcome_content name External = Text (''Tool '' @ name @ '' requires external execution'')"
| "outcome_content name (Failed e) = Text (''Error: '' @ message e)"


section \<open>Streaming reconstruction\<close>

definition or_empty :: "string option \<Rightarrow> string" where
  "or_empty v = (if truthy v then the v else [])"

definition fallback_id :: "int \<Rightarrow> int \<Rightarrow> string" where
  "fallback_id now index = ''call_'' @ show_int now @ ''_'' @ show_int index"

text \<open>
  One tool-call delta on the buffer, a \<open>Map\<close> from the delta's index to the partial tool
  call; \<open>now\<close> is the reading of the clock.
\<close>

definition feed_delta :: "int \<Rightarrow> (int \<times> tool_call) list \<Rightarrow> tool_call_delta \<Rightarrow> (int \<times> tool_call) list" where
  "feed_delta now toolCallsBuffer toolCallDelta =
     (let index = tcd_index toolCallDelta in
      case map_of toolCallsBuffer index of
        None \<Rightarrow>
          map_set index
            \<lparr>tc_id = (if truthy (tcd_id toolCallDelta) then the (tcd_id toolCallDelta)
                       else fallback_id now index),
             tc_name = or_empty (tcd_name toolCallDelta),
             tc_arguments = or_empty (tcd_arguments toolCallDelta)\<rparr>
            toolCallsBuffer
      | Some existing \<Rightarrow>
          map_set index
            \<lparr>tc_id = (if truthy (tcd_id toolCallDelta) then the (tcd_id toolCallDelta)
                       else tc_id existing),
             tc_name = (if truthy (tcd_name toolCallDelta)
                        then tc_name existing @ the (tcd_name toolCallDelta)
                        else tc_name existing),
             tc_arguments = (if truthy (tcd_arguments toolCallDelta)
                             then tc_arguments existing @ the (tcd_arguments toolCallDelta)
                             else tc_arguments existing)\<rparr>
            toolCallsBuffer)"

text \<open>The filter after the stream has ended, on the values of the buffer in its order.\<close>

definition valid_tool_call :: "tool_call \<Rightarrow> bool" where
  "valid_tool_call toolCall = (tc_id toolCall \<noteq> [] \<and> tc_name toolCall \<noteq> [])"

definition finalize :: "(int \<times> tool_call) list \<Rightarrow> tool_call list" where
  "finalize toolCallsBuffer = filter valid_tool_call (map snd toolCallsBuffer)"

datatype tool_execution_event =
    ToolCallDetected
  | ToolExecutionStart "string list" nat
  | ToolExecuting string nat nat
  | ToolCompleted string
  | ToolError string string
  | ToolsCompleted nat nat
  | FinalResponseStart

datatype stream_item = ChunkItem chunk | EventItem tool_execution_event

record drain_state =
  ds_content :: string
  ds_buffer :: "(int \<times> tool_call) list"
  ds_hasToolCalls :: bool
  ds_out :: "stream_item list"

definition drain_init :: drain_state where
  "drain_init = \<lparr>ds_content = [], ds_buffer = [], ds_hasToolCalls = False, ds_out = []\<rparr>"

text \<open>The body of the loop over the initial stream, for one chunk.\<close>

definition process_chunk :: "bool \<Rightarrow> drain_state \<Rightarrow> int \<times> chunk \<Rightarrow> drain_state" where
  "process_chunk toolExecutionFeedback d nc =
     (let now = fst nc; c = snd nc;
          d1 = (if truthy (chunk_content c)
                then d\<lparr>ds_content := ds_content d @ the (chunk_content c),
                       ds_out := ds_out d @ [ChunkItem c]\<rparr>
                else d);
          d2 = (case chunk_tool_calls c of
                  None \<Rightarrow> d1
                | Some deltas \<Rightarrow>
                    d1\<lparr>ds_hasToolCalls := True,
                       ds_buffer := foldl (feed_delta now) (ds_buffer d1) deltas,
                       ds_out := ds_out d1
                         @ (if toolExecutionFeedback \<and> ds_buffer d1 = []
                            then [EventItem ToolCallDetected] else [])
                         @ [ChunkItem c]\<rparr>)
      in (if truthy (chunk_finish_reason c) then d2\<lparr>ds_out := ds_out d2 @ [ChunkItem c]\<rparr>
          else d2))"

definition drain :: "bool \<Rightarrow> (int \<times> chunk) list \<Rightarrow> drain_state" where
  "drain toolExecutionFeedback chunks = foldl (process_chunk toolExecutionFeedback) drain_init chunks"


section \<open>Turn orchestrator\<close>

definition optimizeToolsForProvider :: "world \<Rightarrow> tool list \<Rightarrow> string \<Rightarrow> tool list" where
  "optimizeToolsForProvider w tools modelName =
     (if \<not> startsWith modelName ''gemini-'' \<or> tools = [] then tools
      else map (w_sanitize w) tools)"

text \<open>
  The backend call; what it returns is a response or a stream as the request asks. Every
  call is entered in the log of the state.
\<close>

definition createChatCompletion ::
  "world \<Rightarrow> sdk_state \<Rightarrow> chat_request \<Rightarrow> (error + completion) \<times> sdk_state" where
  "createChatCompletion w s options =
     (let s' = s\<lparr>backend_log := backend_log s @ [options]\<rparr> in
      if req_stream options
      then (case w_complete_streaming w options of
              Inl m \<Rightarrow> (Inl (BackendError m), s')
            | Inr st \<Rightarrow> (Inr (Stream st), s'))
      else (case w_complete w options of
              Inl m \<Rightarrow> (Inl (BackendError m), s')
            | Inr r \<Rightarrow> (Inr (Response r), s')))"

definition tool_message :: "tool_call \<Rightarrow> content \<Rightarrow> tool_result" where
  "tool_message toolCall c = \<lparr>tr_tool_call_id = tc_id toolCall, tr_content = c\<rparr>"

definition invalid_arguments :: "string \<Rightarrow> string" where
  "invalid_arguments m = ''Error: Invalid tool arguments - '' @ m"

subsection \<open>Non-streaming path\<close>

text \<open>
  One pass of the loop of \<open>_processToolCalls\<close>: every branch pushes one result.
\<close>

definition execute_tool_call ::
  "world \<Rightarrow> sdk_state \<Rightarrow> (string \<times> server_instance) list \<Rightarrow> tool_call \<Rightarrow> tool_result \<times> sdk_state" where
  "execute_tool_call w s perRequestServers toolCall =
     (case w_parse_arguments w (tc_arguments toolCall) of
        Inl m \<Rightarrow> (tool_message toolCall (Text (invalid_arguments m)), s)
      | Inr args \<Rightarrow>
          (case dispatch_tool_call w s (tc_name toolCall) args perRequestServers of
             (outcome, s1) \<Rightarrow>
               (tool_message toolCall (outcome_content (tc_name toolCall) outcome), s1)))"

fun execute_tool_calls ::
  "world \<Rightarrow> (string \<times> server_instance) list \<Rightarrow> tool_call list \<Rightarrow> tool_result list \<Rightarrow> sdk_state
     \<Rightarrow> tool_result list \<times> sdk_state" where
  "execute_tool_calls w perRequestServers [] toolResults s = (toolResults, s)"
| "execute_tool_calls w perRequestServers (toolCall # rest) toolResults s =
     (case execute_tool_call w s perRequestServers toolCall of
        (r, s1) \<Rightarrow> execute_tool_calls w perRequestServers rest (toolResults @ [r]) s1)"

text \<open>
  The request of the follow-up call, as both paths build it: the messages extended by the
  assistant's message and the tool results, \<open>tools\<close> and \<open>tool_choice\<close> deleted.
\<close>

definition followUp_request :: "chat_request \<Rightarrow> assistant_message \<Rightarrow> tool_result list \<Rightarrow> chat_request" where
  "followUp_request options assistantMessage toolResults =
     options\<lparr>req_messages := req_messages options @ [AssistantMessage assistantMessage]
                                @ map ToolMessage toolResults,
             req_tools := None, req_tool_choice := None\<rparr>"

definition response_tool_calls :: "chat_response \<Rightarrow> tool_call list option" where
  "response_tool_calls response =
     (case resp_message response of None \<Rightarrow> None | Some m \<Rightarrow> am_tool_calls m)"

definition processToolCalls ::
  "world \<Rightarrow> sdk_state \<Rightarrow> chat_response \<Rightarrow> chat_request \<Rightarrow> (string \<times> server_instance) list
     \<Rightarrow> (error + completion) \<times> sdk_state" where
  "processToolCalls w s response originalOptions perRequestServers =
     (case resp_message response of
        None \<Rightarrow> (Inl (TypeError (cannot_read ''tool_calls'')), s)
      | Some msg \<Rightarrow>
          (case am_tool_calls msg of
             None \<Rightarrow> (Inl (TypeError (cannot_read ''length'')), s)
           | Some tool_calls \<Rightarrow>
               (case execute_tool_calls w perRequestServers tool_calls [] s of
                  (toolResults, s1) \<Rightarrow>
                    if toolResults \<noteq> [] then
                      (case createChatCompletion w s1
                              (followUp_request originalOptions msg toolResults) of
                         (Inl e, s2) \<Rightarrow> (Inl e, s2)
                       | (Inr (Response followUpResponse), s2) \<Rightarrow>
                           (Inr (Response (followUpResponse
                                  \<lparr>resp_mcpToolResults := Some toolResults,
                                   resp_originalToolCalls := Some tool_calls\<rparr>)), s2)
                       | (Inr (Stream st), s2) \<Rightarrow> (Inr (Stream st), s2))
                    else (Inr (Response (response\<lparr>resp_mcpToolResults := Some toolResults\<rparr>)),
                          s1))))"


subsection \<open>Streaming path\<close>

text \<open>
  One tool call of the streaming path: its result message and the events it yields when
  progress notifications are asked for. The text of the arguments is decoded only here.
\<close>

definition decode_arguments :: "world \<Rightarrow> string \<Rightarrow> error + string" where
  "decode_arguments w arguments =
     (if arguments = [] \<or> trim arguments = [] then Inl EmptyArguments
      else (case w_parse_arguments w arguments of
              Inl m \<Rightarrow> Inl (JsonSyntaxError m)
            | Inr args \<Rightarrow> Inr args))"

fun outcome_events :: "string \<Rightarrow> dispatch_outcome \<Rightarrow> tool_execution_event list" where
  "outcome_events name (Completed c) = [ToolCompleted name]"
| "outcome_events name NotConnected = []"
| "outcome_events name External = []"
| "outcome_events name (Failed e) = [ToolError name (message e)]"

definition feedback_events :: "bool \<Rightarrow> tool_execution_event list \<Rightarrow> stream_item list" where
  "feedback_events toolExecutionFeedback evs =
     (if toolExecutionFeedback then map EventItem evs else [])"

definition execute_tool_call_streaming ::
  "world \<Rightarrow> sdk_state \<Rightarrow> bool \<Rightarrow> (string \<times> server_instance) list \<Rightarrow> nat \<Rightarrow> nat \<Rightarrow> tool_call
     \<Rightarrow> tool_result \<times> stream_item list \<times> sdk_state" where
  "execute_tool_call_streaming w s toolExecutionFeedback perRequestServers totalTools index toolCall =
     (let name = tc_name toolCall;
          executing = feedback_events toolExecutionFeedback [ToolExecuting name (index + 1) totalTools]
      in (case decode_arguments w (tc_arguments toolCall) of
            Inl parseError \<Rightarrow>
              (tool_message toolCall (Text (invalid_arguments (message parseError))),
               executing @ feedback_events toolExecutionFeedback
                             [ToolError name (message parseError)],
               s)
          | Inr args \<Rightarrow>
              (case dispatch_tool_call w s name args perRequestServers of
                 (outcome, s1) \<Rightarrow>
                   (tool_message toolCall (outcome_content name outcome),
                    executing @ feedback_events toolExecutionFeedback (outcome_events name outcome),
                    s1))))"

fun execute_tool_calls_streaming ::
  "world \<Rightarrow> bool \<Rightarrow> (string \<times> server_instance) list \<Rightarrow> nat \<Rightarrow> nat \<Rightarrow> tool_call list
     \<Rightarrow> tool_result list \<Rightarrow> stream_item list \<Rightarrow> sdk_state
     \<Rightarrow> tool_result list \<times> stream_item list \<times> sdk_state" where
  "execute_tool_calls_streaming w fb perRequestServers totalTools index [] toolResults out s =
     (toolResults, out, s)"
| "execute_tool_calls_streaming w fb perRequestServers totalTools index (toolCall # rest) toolResults out s =
     (case execute_tool_call_streaming w s fb perRequestServers totalTools index toolCall of
        (r, evs, s1) \<Rightarrow>
          execute_tool_calls_streaming w fb perRequestServers totalTools (index + 1) rest
            (toolResults @ [r]) (out @ evs) s1)"

text \<open>
  The summary of the tool phase counts the results whose content does not begin with
  \<open>Error:\<close>. It calls \<open>startsWith\<close> on every content, in the order of the results:
  at the first content that is no string it throws.
\<close>

fun successful_count :: "tool_result list \<Rightarrow> error + nat" where
  "successful_count [] = Inr 0"
| "successful_count (r # rs) =
     (case tr_content r of
        Text t \<Rightarrow>
          (case successful_count rs of
             Inl e \<Rightarrow> Inl e
           | Inr n \<Rightarrow> Inr (if startsWith t ''Error:'' then n else Suc n))
      | Undefined \<Rightarrow> Inl (TypeError (cannot_read ''startsWith''))
      | NotText v \<Rightarrow> Inl (TypeError ''r.content.startsWith is not a function''))"

text \<open>
  The end of the streaming path, from the summary of the tool phase to the end of the
  follow-up stream.
\<close>

definition followUp_streaming ::
  "world \<Rightarrow> sdk_state \<Rightarrow> chat_request \<Rightarrow> bool \<Rightarrow> assistant_message \<Rightarrow> tool_result list
     \<Rightarrow> stream_item list \<Rightarrow> (stream_item list \<times> error option) \<times> sdk_state" where
  "followUp_streaming w s options toolExecutionFeedback assistantMessage toolResults out =
     (case (if toolExecutionFeedback
            then (case successful_count toolResults of
                    Inl e \<Rightarrow> Inl e
                  | Inr successful \<Rightarrow>
                      Inr [EventItem (ToolsCompleted
                             (length (case am_tool_calls assistantMessage of
                                        Some tcs \<Rightarrow> tcs | None \<Rightarrow> []))
                             successful),
                           EventItem FinalResponseStart])
            else Inr []) of
        Inl e \<Rightarrow> ((out, Some e), s)
      | Inr evs \<Rightarrow>
          (case createChatCompletion w s
                  (followUp_request options assistantMessage toolResults) of
             (Inl e, s1) \<Rightarrow> ((out @ evs, Some e), s1)
           | (Inr (Response r), s1) \<Rightarrow>
               ((out @ evs, Some (TypeError ''followUpStream is not async iterable'')), s1)
           | (Inr (Stream followUpStream), s1) \<Rightarrow>
               ((out @ evs @ map (\<lambda>nc. ChunkItem (snd nc)) (strm_chunks followUpStream),
                 map_option BackendError (strm_failure followUpStream)), s1)))"

text \<open>
  The generator, run to its end: what it yields, the error it throws if it does, and the
  state it leaves.
\<close>

definition createStreamingWithTools ::
  "world \<Rightarrow> sdk_state \<Rightarrow> chat_request \<Rightarrow> (string \<times> server_instance) list \<Rightarrow> bool
     \<Rightarrow> (stream_item list \<times> error option) \<times> sdk_state" where
  "createStreamingWithTools w s options perRequestServers toolExecutionFeedback =
     (case createChatCompletion w s options of
        (Inl e, s1) \<Rightarrow> (([], Some e), s1)
      | (Inr (Response r), s1) \<Rightarrow>
          (([], Some (TypeError ''initialStream is not async iterable'')), s1)
      | (Inr (Stream initialStream), s1) \<Rightarrow>
          let d = drain toolExecutionFeedback (strm_chunks initialStream) in
          (case strm_failure initialStream of
             Some m \<Rightarrow> ((ds_out d, Some (BackendError m)), s1)
           | None \<Rightarrow>
               if \<not> ds_hasToolCalls d then ((ds_out d, None), s1)
               else
                 let tool_calls = finalize (ds_buffer d) in
                 if tool_calls = [] then ((ds_out d, None), s1)
                 else
                   let assistantMessage = \<lparr>am_content = Some (ds_content d),
                                            am_tool_calls = Some tool_calls\<rparr>;
                       out1 = ds_out d @ feedback_events toolExecutionFeedback
                                [ToolExecutionStart (map tc_name tool_calls) (length tool_calls)]
                   in (case execute_tool_calls_streaming w toolExecutionFeedback
                              perRequestServers (length tool_calls) 0 tool_calls [] out1 s1 of
                         (toolResults, out2, s2) \<Rightarrow>
                           if toolResults = [] then ((out2, None), s2)
                           else followUp_streaming w s2 options toolExecutionFeedback
                                  assistantMessage toolResults out2)))"

subsection \<open>The turn\<close>

datatype turn_result =
    Returned completion
  | Generator chat_request "(string \<times> server_instance) list" bool

text \<open>
  The tool-assembly phase up to the global catalog: the per-request servers started for
  the turn and their tools. An exception in it leaves \<open>perRequestServers\<close> of the caller
  the empty map it was.
\<close>

definition start_perRequest ::
  "world \<Rightarrow> int \<Rightarrow> sdk_state \<Rightarrow> chat_request
     \<Rightarrow> (error + (string \<times> server_instance) list \<times> tool list) \<times> sdk_state" where
  "start_perRequest w now s options =
     (case req_mcpServers options of
        None \<Rightarrow> (Inr ([], []), s)
      | Some servers \<Rightarrow>
          (case initializePerRequestServers w now s servers of
             (Inl e, s1) \<Rightarrow> (Inl e, s1)
           | (Inr perRequestServers, s1) \<Rightarrow>
               (case getToolsFromPerRequestServers w s1 perRequestServers of
                  (perRequestTools, s2) \<Rightarrow> (Inr (perRequestServers, perRequestTools), s2))))"

text \<open>
  The request sent to the backend: the options without the two fields of this layer, with
  the merged tools and a tool choice when there are tools, without a tool choice when
  there are none.
\<close>

definition enhance_options :: "world \<Rightarrow> chat_request \<Rightarrow> tool list \<Rightarrow> chat_request" where
  "enhance_options w options allTools =
     (let enhancedOptions = options\<lparr>req_mcpServers := None, req_toolExecutionFeedback := None\<rparr>
      in if allTools \<noteq> [] then
           enhancedOptions\<lparr>
             req_tools := Some (optimizeToolsForProvider w allTools (req_model options)),
             req_tool_choice := Some (if truthy (req_tool_choice options)
                                      then the (req_tool_choice options) else ''auto'')\<rparr>
         else if truthy (req_tool_choice options) then enhancedOptions\<lparr>req_tool_choice := None\<rparr>
         else enhancedOptions)"

text \<open>
  \<open>createWithMCPTools\<close>. For a streaming request it returns the generator without
  running it; the cleanup of its \<open>finally\<close> block is the last thing it does on every
  path, on the map \<open>perRequestServers\<close> as it is then.
\<close>

definition createWithMCPTools ::
  "world \<Rightarrow> int \<Rightarrow> sdk_state \<Rightarrow> chat_request \<Rightarrow> (error + turn_result) \<times> sdk_state" where
  "createWithMCPTools w now s options =
     (case start_perRequest w now s options of
        (Inl e, s1) \<Rightarrow> (Inl e, s1)
      | (Inr (perRequestServers, perRequestTools), s1) \<Rightarrow>
          (case getMCPTools w now s1 of
             (globalMcpTools, s2) \<Rightarrow>
               let userTools = (case req_tools options of Some ts \<Rightarrow> ts | None \<Rightarrow> []);
                   allTools = userTools @ globalMcpTools @ perRequestTools;
                   enhancedOptions = enhance_options w options allTools;
                   (result, s3) =
                     (if req_stream options
                      then (Inr (Generator enhancedOptions perRequestServers
                                   (req_toolExecutionFeedback options = Some True)), s2)
                      else (case createChatCompletion w s2 enhancedOptions of
                              (Inl e, s') \<Rightarrow> (Inl e, s')
                            | (Inr (Stream st), s') \<Rightarrow> (Inr (Returned (Stream st)), s')
                            | (Inr (Response response), s') \<Rightarrow>
                                if response_tool_calls response \<noteq> None
                                then (case processToolCalls w s' response options
                                             perRequestServers of
                                        (Inl e, s'') \<Rightarrow> (Inl e, s'')
                                      | (Inr c, s'') \<Rightarrow> (Inr (Returned c), s''))
                                else (Inr (Returned (Response response)), s')))
               in (result, if perRequestServers \<noteq> []
                           then cleanupPerRequestServers perRequestServers s3 else s3)))"

text \<open>
  A whole turn: the call, and for a streaming request the generator it returns, read to
  its end by the caller.
\<close>

datatype turn_end =
    Done completion
  | DoneStreaming "stream_item list"
  | FailedWith error "stream_item list"

definition run_turn :: "world \<Rightarrow> int \<Rightarrow> sdk_state \<Rightarrow> chat_request \<Rightarrow> turn_end \<times> sdk_state" where
  "run_turn w now s options =
     (case createWithMCPTools w now s options of
        (Inl e, s1) \<Rightarrow> (FailedWith e [], s1)
      | (Inr (Returned c), s1) \<Rightarrow> (Done c, s1)
      | (Inr (Generator enhancedOptions perRequestServers fb), s1) \<Rightarrow>
          (case createStreamingWithTools w s1 enhancedOptions perRequestServers fb of
             ((out, None), s2) \<Rightarrow> (DoneStreaming out, s2)
           | ((out, Some e), s2) \<Rightarrow> (FailedWith e out, s2)))"


section \<open>Fragments of one tool call\<close>

text \<open>
  The statement of chunking invariance: \<open>fragments\<close> are deltas with the clock reading
  at which each is handled; \<open>whole_delta\<close> is the one delta that delivers their names and
  arguments whole, with the last non-empty id among them.
\<close>

definition last_id :: "tool_call_delta list \<Rightarrow> string option" where
  "last_id ds = (let ids = filter truthy (map tcd_id ds) in if ids = [] then None else last ids)"

definition whole_delta :: "int \<Rightarrow> tool_call_delta list \<Rightarrow> tool_call_delta" where
  "whole_delta i ds =
     \<lparr>tcd_index = i, tcd_id = last_id ds,
      tcd_name = Some (concat (map (\<lambda>d. or_empty (tcd_name d)) ds)),
      tcd_arguments = Some (concat (map (\<lambda>d. or_empty (tcd_arguments d)) ds))\<rparr>"

definition delta_chunk :: "tool_call_delta \<Rightarrow> chunk" where
  "delta_chunk d = \<lparr>chunk_content = None, chunk_tool_calls = Some [d],
                     chunk_finish_reason = None, chunk_other = []\<rparr>"

definition fragment_chunks :: "(int \<times> tool_call_delta) list \<Rightarrow> (int \<times> chunk) list" where
  "fragment_chunks fragments = map (\<lambda>td. (fst td, delta_chunk (snd td))) fragments"

definition demo_fragments :: "(int \<times> tool_call_delta) list" where
  "demo_fragments =
     [(100, \<lparr>tcd_index = 0, tcd_id = Some ''call_abc'', tcd_name = Some ''get_'',
             tcd_arguments = Some ''{city:''\<rparr>),
      (101, \<lparr>tcd_index = 0, tcd_id = None, tcd_name = Some ''weath'',
             tcd_arguments = Some ''Par''\<rparr>),
      (102, \<lparr>tcd_index = 0, tcd_id = None, tcd_name = Some ''er'',
             tcd_arguments = Some ''is}''\<rparr>)]"

definition feed_fragments :: "(int \<times> tool_call) list \<Rightarrow> (int \<times> tool_call_delta) list \<Rightarrow> (int \<times> tool_call) list" where
  "feed_fragments buf fragments = foldl (\<lambda>b td. feed_delta (fst td) b (snd td)) buf fragments"


section \<open>Concrete clients and worlds\<close>

definition new_client :: "bool \<Rightarrow> (string \<times> server_definition) list \<Rightarrow> sdk_state" where
  "new_client enabled servers =
     \<lparr>mcpServersConfig = servers, mcpEnabled = enabled, mcpServerInstances = [],
      mcpToolsCache = None, mcpLastCacheTime = 0, toolToServerMap = [], mcpClient = False,
      next_handle = 0, running = [], http_log = [], backend_log = []\<rparr>"

definition no_definition :: server_definition where
  "no_definition = \<lparr>def_command = None, def_args = None, def_type = None, def_url = None,
                      def_headers = None, def_timeout = None, def_serverInstructions = None,
                      def_env = None\<rparr>"

definition command_server :: "string \<Rightarrow> server_definition" where
  "command_server c = no_definition\<lparr>def_command := Some c\<rparr>"

definition http_server :: "string \<Rightarrow> server_definition" where
  "http_server u = no_definition\<lparr>def_type := Some KindHttp, def_url := Some u\<rparr>"

definition dead_world :: world where
  "dead_world =
     \<lparr>w_resolve = (\<lambda>x. x),
      w_spawn = (\<lambda>c a e. LaunchError (''spawn '' @ c @ '' ENOENT'')),
      w_fetch = (\<lambda>r. FetchFailed ''fetch failed''),
      w_json_parse = (\<lambda>t. Inl ''Unexpected token''),
      w_parse_arguments = (\<lambda>t. Inl ''Unexpected token''),
      w_sanitize = (\<lambda>t. t),
      w_complete = (\<lambda>r. Inl ''no backend''),
      w_complete_streaming = (\<lambda>r. Inl ''no backend'')\<rparr>"

definition idless_chunks :: "(int \<times> chunk) list" where
  "idless_chunks =
     [(1700, delta_chunk \<lparr>tcd_index = 0, tcd_id = None, tcd_name = Some ''f'',
                          tcd_arguments = Some ''{}''\<rparr>),
      (1701, delta_chunk \<lparr>tcd_index = 1, tcd_id = None, tcd_name = None,
                          tcd_arguments = Some ''{}''\<rparr>)]"

definition failing_registry :: sdk_state where
  "failing_registry = initializeMCP dead_world 1000 (new_client True [(''fs'', command_server ''nope'')])"

text \<open>
  A world with two HTTP servers that answer, \<open>fs\<close> and \<open>extra\<close>, one whose body has no
  event line, one that answers with an error member, one that answers with neither a
  result nor an error, one that answers with the status 500, and a backend that asks for
  one tool call when it is offered tools.
\<close>

definition http_ok :: "string \<Rightarrow> http_reply" where
  "http_ok body = HttpReply True 200 ''OK'' body None"

definition demo_fetch :: "http_request \<Rightarrow> http_reply" where
  "demo_fetch req =
     (if hr_url req = Some ''http://fs'' then
        (case hr_call req of
           Initialize \<Rightarrow>
             HttpReply True 200 ''OK'' (''event: message'' @ [CHR 0x0A] @ ''data: INIT'') (Some ''s1'')
         | NotificationsInitialized \<Rightarrow> HttpReply True 202 ''Accepted'' [] None
         | ToolsList \<Rightarrow> http_ok ''data: FS_TOOLS''
         | ToolsCall name args \<Rightarrow>
             if name = ''ping'' then http_ok ''data: EMPTY'' else http_ok ''data: CONTENT'')
      else if hr_url req = Some ''http://extra'' then
        (case hr_call req of
           Initialize \<Rightarrow> http_ok ''data: INIT''
         | NotificationsInitialized \<Rightarrow> http_ok ''data: INIT''
         | ToolsList \<Rightarrow> http_ok ''data: EXTRA_TOOLS''
         | ToolsCall name args \<Rightarrow> http_ok ''data: CONTENT'')
      else if hr_url req = Some ''http://plain'' then http_ok ''hello''
      else if hr_url req = Some ''http://err'' then http_ok ''data: ERR''
      else if hr_url req = Some ''http://quiet'' then http_ok ''data: EMPTY''
      else if hr_url req = Some ''http://down'' then
        HttpReply False 500 ''Internal Server Error'' ''oops'' None
      else FetchFailed ''fetch failed'')"

definition plain_result :: rpc_result where
  "plain_result = \<lparr>res_tools = None, res_text = Undefined, res_json = ''{}''\<rparr>"

definition listed :: "string \<Rightarrow> mcp_tool" where
  "listed n = \<lparr>mt_name = n, mt_description = [], mt_inputSchema = ''{}''\<rparr>"

definition demo_json_parse :: "string \<Rightarrow> string + rpc_payload" where
  "demo_json_parse t =
     (if t = ''INIT'' then Inr \<lparr>rp_error = None, rp_result = Truthy plain_result\<rparr>
      else if t = ''FS_TOOLS'' then
        Inr \<lparr>rp_error = None,
             rp_result = Truthy (plain_result\<lparr>res_tools := Some [listed ''read_file'', listed ''ping'']\<rparr>)\<rparr>
      else if t = ''DB_TOOLS'' then
        Inr \<lparr>rp_error = None,
             rp_result = Truthy (plain_result\<lparr>res_tools := Some [listed ''query'']\<rparr>)\<rparr>
      else if t = ''EXTRA_TOOLS'' then
        Inr \<lparr>rp_error = None,
             rp_result = Truthy (plain_result\<lparr>res_tools := Some [listed ''echo'']\<rparr>)\<rparr>
      else if t = ''CONTENT'' then
        Inr \<lparr>rp_error = None, rp_result = Truthy (plain_result\<lparr>res_text := Text ''ok''\<rparr>)\<rparr>
      else if t = ''EMPTY'' then Inr \<lparr>rp_error = None, rp_result = Absent\<rparr>
      else if t = ''ERR'' then Inr \<lparr>rp_error = Some ''boom'', rp_result = Absent\<rparr>
      else Inl ''Unexpected token'')"

definition asks_for :: "string \<Rightarrow> tool_call" where
  "asks_for n = \<lparr>tc_id = ''c1'', tc_name = n, tc_arguments = ''{}''\<rparr>"

definition demo_complete :: "chat_request \<Rightarrow> string + chat_response" where
  "demo_complete req =
     (if req_tools req \<noteq> None
      then Inr \<lparr>resp_message = Some \<lparr>am_content = None, am_tool_calls = Some [asks_for ''echo'']\<rparr>,
                resp_other = ''first'', resp_mcpToolResults = None,
                resp_originalToolCalls = None\<rparr>
      else Inr \<lparr>resp_message = Some \<lparr>am_content = Some ''done'', am_tool_calls = None\<rparr>,
                resp_other = ''second'', resp_mcpToolResults = None,
                resp_originalToolCalls = None\<rparr>)"

definition text_chunk :: "string \<Rightarrow> chunk" where
  "text_chunk t = \<lparr>chunk_content = Some t, chunk_tool_calls = None,
                   chunk_finish_reason = None, chunk_other = []\<rparr>"

definition demo_complete_streaming :: "chat_request \<Rightarrow> string + chunk_stream" where
  "demo_complete_streaming req =
     (if req_tools req \<noteq> None
      then Inr \<lparr>strm_chunks =
                  [(3000, delta_chunk \<lparr>tcd_index = 0, tcd_id = Some ''c1'', tcd_name = Some ''ping'',
                                      tcd_arguments = Some ''{}''\<rparr>)],
                strm_failure = None\<rparr>
      else Inr \<lparr>strm_chunks = [(4000, text_chunk ''done'')], strm_failure = None\<rparr>)"

definition demo_world :: world where
  "demo_world =
     \<lparr>w_resolve = (\<lambda>x. x),
      w_spawn = (\<lambda>c a e. if c = ''node'' then Launched
                          else if c = ''slow'' then NoLaunchSignal
                          else LaunchError (''spawn '' @ c @ '' ENOENT'')),
      w_fetch = demo_fetch,
      w_json_parse = demo_json_parse,
      w_parse_arguments = (\<lambda>t. if t = ''{}'' then Inr ''{}'' else Inl ''Unexpected token''),
      w_sanitize = (\<lambda>t. t),
      w_complete = demo_complete,
      w_complete_streaming = demo_complete_streaming\<rparr>"

definition plain_request :: chat_request where
  "plain_request =
     \<lparr>req_model = ''gpt-4o'', req_messages = [PlainMessage ''user'' ''hello''],
      req_tools = None, req_tool_choice = None, req_stream = False, req_mcpServers = None,
      req_toolExecutionFeedback = None, req_other = []\<rparr>"

definition registered :: "string \<Rightarrow> server_instance \<Rightarrow> sdk_state \<Rightarrow> sdk_state" where
  "registered n i s = s\<lparr>mcpServerInstances := map_set n i (mcpServerInstances s)\<rparr>"

definition plain_client :: sdk_state where
  "plain_client = new_client True [(''plain'', http_server ''http://plain'')]"

definition err_client :: sdk_state where
  "err_client = new_client True [(''err'', http_server ''http://err'')]"

definition fs_client :: sdk_state where
  "fs_client = initializeMCP demo_world 1000 (new_client True [(''fs'', http_server ''http://fs'')])"

definition fs_cached :: sdk_state where
  "fs_cached = snd (getMCPTools demo_world 2000 fs_client)"

text \<open>The same world after the server \<open>fs\<close> has changed the tools it lists.\<close>

definition demo_world_after :: world where
  "demo_world_after =
     demo_world\<lparr>w_fetch := (\<lambda>req. if hr_call req = ToolsList then http_ok ''data: DB_TOOLS''
                                   else demo_fetch req)\<rparr>"

definition fs_restarted :: sdk_state where
  "fs_restarted = snd (restartMCPServer demo_world_after 3000 fs_cached ''fs'')"

text \<open>An instance up to the handle of its subprocess.\<close>

definition settled :: "server_instance \<Rightarrow> server_instance" where
  "settled i = i\<lparr>inst_process := None\<rparr>"

definition bad_servers :: "(string \<times> server_definition) list" where
  "bad_servers = [(''bad'', no_definition), (''quiet'', http_server ''http://quiet''),
                  (''fs'', http_server ''http://fs'')]"

definition mixed_servers :: "(string \<times> server_definition) list" where
  "mixed_servers = [(''nope'', command_server ''nope''), (''fs'', http_server ''http://fs'')]"

text \<open>
  The error that the start sequence of the server \<open>n\<close> with the definition \<open>c\<close> raises
  when the server is started alone, in a client that has no other server.
\<close>

definition start_failure :: "world \<Rightarrow> int \<Rightarrow> string \<Rightarrow> server_definition \<Rightarrow> error option" where
  "start_failure w now n c =
     (case getServerType (processServerConfig w c) of
        Inl e \<Rightarrow> None
      | Inr ty \<Rightarrow>
          fst (start_sequence w
                 (registered n (new_instance n (processServerConfig w c) ty now)
                    (new_client True [(n, c)]))
                 (new_instance n (processServerConfig w c) ty now)))"

definition started_alone :: "world \<Rightarrow> int \<Rightarrow> string \<Rightarrow> server_definition \<Rightarrow> server_instance option" where
  "started_alone w now n c =
     map_of (mcpServerInstances (snd (initializeMCPServer w now (new_client True [(n, c)]) n))) n"

text \<open>Requests and backends of the scenarios.\<close>

definition streaming_request :: chat_request where
  "streaming_request = plain_request\<lparr>req_stream := True\<rparr>"

definition feedback_request :: chat_request where
  "feedback_request = plain_request\<lparr>req_stream := True, req_toolExecutionFeedback := Some True\<rparr>"




definition per_request_echo :: chat_request where
  "per_request_echo = plain_request\<lparr>req_mcpServers := Some [(''tmp'', http_server ''http://extra'')]\<rparr>"

definition leaking_request :: chat_request where
  "leaking_request =
     plain_request\<lparr>req_mcpServers := Some [(''a'', command_server ''node''), (''b'', no_definition)]\<rparr>"

definition down_client :: sdk_state where
  "down_client = new_client True [(''down'', http_server ''http://down'')]"


section \<open>Properties\<close>

subsection \<open>Maps and optional strings\<close>

lemma map_of_map_set: "map_of (map_set k v m) k' = (if k' = k then Some v else map_of m k')"
  by (induction m) auto

lemma map_set_twice: "map_set k v' (map_set k v m) = map_set k v' m"
  by (induction m) auto

lemma truthy_or_empty: "truthy (Some (or_empty v)) = truthy v"
  by (auto simp: truthy_def or_empty_def split: option.splits)

lemma or_empty_Some: "or_empty (Some x) = x"
  by (auto simp: truthy_def or_empty_def)

lemma or_empty_not_truthy: "\<not> truthy v \<Longrightarrow> or_empty v = []"
  by (auto simp: or_empty_def)

lemma or_empty_truthy: "truthy v \<Longrightarrow> the v = or_empty v"
  by (auto simp: or_empty_def)

subsection \<open>Streaming reconstruction\<close>

lemma last_id_snoc:
  "last_id (ds @ [d]) = (if truthy (tcd_id d) then tcd_id d else last_id ds)"
  by (simp add: last_id_def)

lemma truthy_last_id: "last_id ds = Some x \<Longrightarrow> truthy (Some x)"
proof (induction ds rule: rev_induct)
  case Nil then show ?case by (simp add: last_id_def)
next
  case (snoc d ds) then show ?case by (auto simp: last_id_snoc split: if_splits)
qed

lemma feed_delta_twice:
  assumes "tcd_index a = i" "tcd_index d = i"
  shows "feed_delta t (feed_delta t0 buf a) d =
         feed_delta t0 buf \<lparr>tcd_index = i,
            tcd_id = (if truthy (tcd_id d) then tcd_id d else tcd_id a),
            tcd_name = Some (or_empty (tcd_name a) @ or_empty (tcd_name d)),
            tcd_arguments = Some (or_empty (tcd_arguments a) @ or_empty (tcd_arguments d))\<rparr>"
  using assms
  apply (cases "map_of buf i")
   apply (auto simp: feed_delta_def Let_def map_of_map_set map_set_twice or_empty_Some or_empty_not_truthy or_empty_truthy truthy_def[of "Some _"])
  done

lemma whole_delta_snoc:
  "whole_delta i (ds @ [d]) =
   \<lparr>tcd_index = i,
            tcd_id = (if truthy (tcd_id d) then tcd_id d else tcd_id (whole_delta i ds)),
            tcd_name = Some (or_empty (tcd_name (whole_delta i ds)) @ or_empty (tcd_name d)),
            tcd_arguments = Some (or_empty (tcd_arguments (whole_delta i ds)) @ or_empty (tcd_arguments d))\<rparr>"
  by (simp add: whole_delta_def last_id_snoc or_empty_Some)

lemma whole_delta_index: "tcd_index (whole_delta i ds) = i"
  by (simp add: whole_delta_def)

lemma chunking:
  assumes "\<forall>td \<in> set rest. tcd_index (snd td) = i" "tcd_index d0 = i"
  shows "feed_fragments buf ((t0, d0) # rest) = feed_delta t0 buf (whole_delta i (d0 # map snd rest))"
  using assms
proof (induction rest rule: rev_induct)
  case Nil
  have "whole_delta i [d0] = \<lparr>tcd_index = i, tcd_id = (if truthy (tcd_id d0) then tcd_id d0 else None),
      tcd_name = Some (or_empty (tcd_name d0)), tcd_arguments = Some (or_empty (tcd_arguments d0))\<rparr>"
    by (simp add: whole_delta_def last_id_def)
  with Nil show ?case
    by (cases "map_of buf i")
       (auto simp: feed_fragments_def feed_delta_def Let_def or_empty_Some truthy_or_empty or_empty_truthy
             or_empty_not_truthy truthy_def[of None] truthy_def[of "Some _"])
next
  case (snoc td rest)
  have "feed_fragments buf ((t0, d0) # rest @ [td]) =
        feed_delta (fst td) (feed_fragments buf ((t0, d0) # rest)) (snd td)"
    by (simp add: feed_fragments_def)
  also have "\<dots> = feed_delta (fst td) (feed_delta t0 buf (whole_delta i (d0 # map snd rest))) (snd td)"
    using snoc by simp
  also have "\<dots> = feed_delta t0 buf (whole_delta i ((d0 # map snd rest) @ [snd td]))"
    using snoc.prems feed_delta_twice[OF whole_delta_index, of "snd td" i "fst td" t0 buf "d0 # map snd rest"]
    by (simp add: whole_delta_snoc[symmetric])
  finally show ?case by simp
qed

lemma drain_fragment_chunks:
  "ds_buffer (foldl (process_chunk fb) d (fragment_chunks fragments)) =
   feed_fragments (ds_buffer d) fragments"
proof (induction fragments arbitrary: d)
  case Nil
  then show ?case by (simp add: fragment_chunks_def feed_fragments_def)
next
  case (Cons td fragments)
  have step: "ds_buffer (process_chunk fb d (fst td, delta_chunk (snd td))) =
              feed_delta (fst td) (ds_buffer d) (snd td)"
    by (simp add: process_chunk_def delta_chunk_def truthy_def Let_def)
  from Cons[of "process_chunk fb d (fst td, delta_chunk (snd td))"] step
  show ?case by (simp add: fragment_chunks_def feed_fragments_def)
qed

lemma feed_delta_clock:
  "truthy (tcd_id d) \<or> map_of buf (tcd_index d) \<noteq> None \<Longrightarrow>
   feed_delta t buf d = feed_delta t' buf d"
  by (auto simp: feed_delta_def Let_def split: option.splits)

lemma last_id_truthy: "last_id ds \<noteq> None \<Longrightarrow> truthy (last_id ds)"
  using truthy_last_id[of ds] by (cases "last_id ds") simp_all

text \<open>
  C5. Reconstruction does not depend on the chunking. Fragments of one tool call, all with
  the index \<open>i\<close>, fed one after the other leave the buffer that the single delta
  \<open>whole_delta\<close> leaves (the names and the arguments concatenated, the last non-empty
  id), fed at the clock reading of the first fragment; so the finalized tool calls of a
  stream of one-fragment chunks are those of the stream of the one whole chunk. The clock
  enters through the fallback id only: when a fragment carries a non-empty id, or the
  buffer has an entry for \<open>i\<close> already, the single delta may be fed at any reading.
\<close>

theorem chunking_invariant:
  assumes "fragments \<noteq> []" and "\<forall>td\<in>set fragments. tcd_index (snd td) = i"
  shows "feed_fragments buf fragments =
           feed_delta (fst (hd fragments)) buf (whole_delta i (map snd fragments))
         \<and> finalize (ds_buffer (drain fb (fragment_chunks fragments))) =
           finalize (ds_buffer (drain fb
             [(fst (hd fragments), delta_chunk (whole_delta i (map snd fragments)))]))
         \<and> (last_id (map snd fragments) \<noteq> None \<or> map_of buf i \<noteq> None \<longrightarrow>
              feed_fragments buf fragments = feed_delta t buf (whole_delta i (map snd fragments)))"
proof -
  obtain t0 d0 rest where fr: "fragments = (t0, d0) # rest"
    using assms(1) by (cases fragments) auto
  have eq: "\<And>b. feed_fragments b fragments =
              feed_delta (fst (hd fragments)) b (whole_delta i (map snd fragments))"
    using assms(2) chunking[of rest i d0 _ t0] by (simp add: fr)
  have one: "ds_buffer (drain fb [(fst (hd fragments), delta_chunk (whole_delta i (map snd fragments)))])
             = feed_delta (fst (hd fragments)) [] (whole_delta i (map snd fragments))"
    by (simp add: drain_def drain_init_def process_chunk_def delta_chunk_def truthy_def Let_def)
  have many: "ds_buffer (drain fb (fragment_chunks fragments)) = feed_fragments [] fragments"
    by (simp add: drain_def drain_fragment_chunks drain_init_def)
  have clock: "last_id (map snd fragments) \<noteq> None \<or> map_of buf i \<noteq> None \<Longrightarrow>
          feed_delta (fst (hd fragments)) buf (whole_delta i (map snd fragments)) =
          feed_delta t buf (whole_delta i (map snd fragments))"
    using last_id_truthy[of "map snd fragments"]
    by (intro feed_delta_clock) (auto simp: whole_delta_def)
  show ?thesis using eq[of buf] eq[of "[]"] one many clock by simp
qed

theorem chunking_invariant_witness:
  "map (\<lambda>td. tcd_index (snd td)) demo_fragments = [0, 0, 0]
   \<and> finalize (ds_buffer (drain False (fragment_chunks demo_fragments))) =
       [\<lparr>tc_id = ''call_abc'', tc_name = ''get_weather'', tc_arguments = ''{city:Paris}''\<rparr>]
   \<and> finalize (ds_buffer (drain False
         [(100, delta_chunk (whole_delta 0 (map snd demo_fragments)))])) =
       [\<lparr>tc_id = ''call_abc'', tc_name = ''get_weather'', tc_arguments = ''{city:Paris}''\<rparr>]
   \<and> feed_fragments [] demo_fragments =
       feed_delta 999 [] (whole_delta 0 (map snd demo_fragments))"
proof -
  have h1: "demo_fragments \<noteq> []" by (simp add: demo_fragments_def)
  have h2: "\<forall>td\<in>set demo_fragments. tcd_index (snd td) = 0" by (simp add: demo_fragments_def)
  have w: "finalize (ds_buffer (drain False
         [(100, delta_chunk (whole_delta 0 (map snd demo_fragments)))])) =
       [\<lparr>tc_id = ''call_abc'', tc_name = ''get_weather'', tc_arguments = ''{city:Paris}''\<rparr>]"
    by (simp add: demo_fragments_def whole_delta_def last_id_def delta_chunk_def drain_def
          drain_init_def process_chunk_def feed_delta_def finalize_def valid_tool_call_def
          truthy_def or_empty_def Let_def)
  have hd: "fst (hd demo_fragments) = 100" by (simp add: demo_fragments_def)
  have h3: "map (\<lambda>td. tcd_index (snd td)) demo_fragments = [0, 0, 0]"
    by (simp add: demo_fragments_def)
  have h4: "last_id (map snd demo_fragments) \<noteq> None"
    by (simp add: demo_fragments_def last_id_def truthy_def)
  note T = chunking_invariant[OF h1 h2, where buf = "[]" and fb = False and t = 999]
  from T h4 have e3: "feed_fragments [] demo_fragments =
                       feed_delta 999 [] (whole_delta 0 (map snd demo_fragments))" by blast
  from T w hd have e2: "finalize (ds_buffer (drain False (fragment_chunks demo_fragments))) =
       [\<lparr>tc_id = ''call_abc'', tc_name = ''get_weather'', tc_arguments = ''{city:Paris}''\<rparr>]"
    by simp
  from h3 e2 w e3 show ?thesis by blast
qed

subsection \<open>Ids of the reconstruction buffer\<close>

lemma set_map_set: "set (map_set k v m) \<subseteq> insert (k, v) (set m)"
  by (induction m) (auto split: if_splits)

lemma fallback_id_nonempty: "fallback_id now index \<noteq> []"
  by (simp add: fallback_id_def)

lemma truthy_the: "truthy v \<Longrightarrow> the v \<noteq> []"
  by (auto simp: truthy_def split: option.splits)

lemma feed_delta_entry:
  assumes "\<forall>e\<in>set buf. tc_id (snd e) \<noteq> []"
  shows "feed_delta now buf d =
           map_set (tcd_index d) (the (map_of (feed_delta now buf d) (tcd_index d))) buf
         \<and> tc_id (the (map_of (feed_delta now buf d) (tcd_index d))) \<noteq> []"
proof (cases "map_of buf (tcd_index d)")
  case None
  then show ?thesis
    by (simp add: feed_delta_def Let_def fallback_id_nonempty truthy_the map_of_map_set)
next
  case (Some existing)
  then have "(tcd_index d, existing) \<in> set buf" by (rule map_of_SomeD)
  with assms have "tc_id existing \<noteq> []" by fastforce
  with Some show ?thesis
    by (simp add: feed_delta_def Let_def truthy_the map_of_map_set)
qed

lemma feed_delta_ids:
  assumes "\<forall>e\<in>set buf. tc_id (snd e) \<noteq> []"
  shows "\<forall>e\<in>set (feed_delta now buf d). tc_id (snd e) \<noteq> []"
proof -
  define v where "v = the (map_of (feed_delta now buf d) (tcd_index d))"
  have fd: "feed_delta now buf d = map_set (tcd_index d) v buf" and v: "tc_id v \<noteq> []"
    using feed_delta_entry[OF assms, of now d] by (simp_all add: v_def)
  show ?thesis using assms v set_map_set[of "tcd_index d" v buf] unfolding fd by fastforce
qed

lemma feed_deltas_ids:
  "\<forall>e\<in>set buf. tc_id (snd e) \<noteq> [] \<Longrightarrow>
   \<forall>e\<in>set (foldl (feed_delta now) buf ds). tc_id (snd e) \<noteq> []"
proof (induction ds arbitrary: buf)
  case Nil
  then show ?case by simp
next
  case (Cons d ds)
  from Cons.IH[OF feed_delta_ids[OF Cons.prems]] show ?case by simp
qed

lemma process_chunk_ids:
  assumes "\<forall>e\<in>set (ds_buffer d). tc_id (snd e) \<noteq> []"
  shows "\<forall>e\<in>set (ds_buffer (process_chunk fb d nc)). tc_id (snd e) \<noteq> []"
proof (cases "chunk_tool_calls (snd nc)")
  case None
  with assms show ?thesis by (simp add: process_chunk_def Let_def)
next
  case (Some deltas)
  with feed_deltas_ids[OF assms, of "fst nc" deltas] show ?thesis
    by (simp add: process_chunk_def Let_def)
qed

lemma drain_ids_from:
  "\<forall>e\<in>set (ds_buffer d). tc_id (snd e) \<noteq> [] \<Longrightarrow>
   \<forall>e\<in>set (ds_buffer (foldl (process_chunk fb) d chunks)). tc_id (snd e) \<noteq> []"
proof (induction chunks arbitrary: d)
  case Nil
  then show ?case by simp
next
  case (Cons nc chunks)
  from Cons.IH[OF process_chunk_ids[OF Cons.prems]] show ?case by simp
qed

lemma drain_ids: "\<forall>e\<in>set (ds_buffer (drain fb chunks)). tc_id (snd e) \<noteq> []"
  unfolding drain_def by (rule drain_ids_from) (simp add: drain_init_def)

text \<open>
  C10. A delta that creates a buffer entry and carries no id stores the fallback id
  \<open>call_<clock>_<index>\<close>, which is not empty; every entry of the buffer has a
  non-empty id when the stream has ended; so the filter after the stream drops exactly
  the entries whose function name is empty.
\<close>

theorem buffer_ids_nonempty:
  "(\<forall>e\<in>set (ds_buffer (drain fb chunks)). tc_id (snd e) \<noteq> [])
   \<and> finalize (ds_buffer (drain fb chunks)) =
       filter (\<lambda>toolCall. tc_name toolCall \<noteq> []) (map snd (ds_buffer (drain fb chunks)))
   \<and> (map_of buf (tcd_index d) = None \<and> \<not> truthy (tcd_id d) \<longrightarrow>
        map_of (feed_delta now buf d) (tcd_index d) =
          Some \<lparr>tc_id = fallback_id now (tcd_index d), tc_name = or_empty (tcd_name d),
                tc_arguments = or_empty (tcd_arguments d)\<rparr>
        \<and> fallback_id now (tcd_index d) \<noteq> [])"
proof -
  have ids: "\<forall>e\<in>set (ds_buffer (drain fb chunks)). tc_id (snd e) \<noteq> []"
    by (rule drain_ids)
  have "filter valid_tool_call (map snd (ds_buffer (drain fb chunks))) =
        filter (\<lambda>toolCall. tc_name toolCall \<noteq> []) (map snd (ds_buffer (drain fb chunks)))"
    using ids by (intro filter_cong) (auto simp: valid_tool_call_def)
  moreover have "map_of buf (tcd_index d) = None \<and> \<not> truthy (tcd_id d) \<longrightarrow>
        map_of (feed_delta now buf d) (tcd_index d) =
          Some \<lparr>tc_id = fallback_id now (tcd_index d), tc_name = or_empty (tcd_name d),
                tc_arguments = or_empty (tcd_arguments d)\<rparr>
        \<and> fallback_id now (tcd_index d) \<noteq> []"
    by (simp add: feed_delta_def Let_def map_of_map_set fallback_id_nonempty)
  ultimately show ?thesis using ids by (simp add: finalize_def)
qed

theorem buffer_ids_nonempty_witness:
  "map (\<lambda>e. tc_id (snd e)) (ds_buffer (drain False idless_chunks)) = [''call_1700_0'', ''call_1701_1'']
   \<and> finalize (ds_buffer (drain False idless_chunks)) =
       [\<lparr>tc_id = ''call_1700_0'', tc_name = ''f'', tc_arguments = ''{}''\<rparr>]
   \<and> map_of (feed_delta 1701 [(0, \<lparr>tc_id = ''call_1700_0'', tc_name = ''f'', tc_arguments = ''{}''\<rparr>)]
               \<lparr>tcd_index = 1, tcd_id = None, tcd_name = None, tcd_arguments = Some ''{}''\<rparr>) 1 =
       Some \<lparr>tc_id = ''call_1701_1'', tc_name = [], tc_arguments = ''{}''\<rparr>"
proof -
  have buf: "ds_buffer (drain False idless_chunks) =
     [(0, \<lparr>tc_id = ''call_1700_0'', tc_name = ''f'', tc_arguments = ''{}''\<rparr>),
      (1, \<lparr>tc_id = ''call_1701_1'', tc_name = [], tc_arguments = ''{}''\<rparr>)]"
    by code_simp
  have fb: "fallback_id 1701 1 = ''call_1701_1''" by code_simp
  from buffer_ids_nonempty[of False idless_chunks
         "[(0, \<lparr>tc_id = ''call_1700_0'', tc_name = ''f'', tc_arguments = ''{}''\<rparr>)]"
         "\<lparr>tcd_index = 1, tcd_id = None, tcd_name = None, tcd_arguments = Some ''{}''\<rparr>" 1701]
  show ?thesis by (simp add: buf fb truthy_def or_empty_def)
qed

subsection \<open>Status of a server\<close>

text \<open>
  C9, as amended. For a registered instance the derived status is \<open>connected\<close> if it is
  initialized, else \<open>error\<close> if a non-empty last error is recorded, else
  \<open>disconnected\<close>; the uptime \<open>now - startTime\<close> is reported whenever the instance has
  a start timestamp other than zero, whether or not it is initialized.
\<close>

theorem status_derivation:
  assumes "map_of (mcpServerInstances s) serverName = Some inst"
  shows "\<exists>st. getServerStatus now s serverName = Inr st
           \<and> status_status st =
               (if inst_initialized inst then Connected
                else if truthy (inst_lastError inst) then ErrorStatus else Disconnected)
           \<and> status_uptime st =
               (case inst_startTime inst of
                  None \<Rightarrow> None
                | Some t \<Rightarrow> if t = 0 then None else Some (now - t))"
  using assms by (auto simp: getServerStatus_def split: option.splits)

lemma failing_registry_instances:
  "mcpServerInstances failing_registry =
     [(''fs'', \<lparr>inst_name = ''fs'', inst_config = command_server ''nope'', inst_type = Command,
               inst_process = Some 0, inst_sessionId = None, inst_initialized = False,
               inst_lastError = Some ''spawn nope ENOENT'', inst_startTime = Some 1000\<rparr>)]"
  by code_simp

theorem status_derivation_witness:
  "\<exists>st. getServerStatus 5000 failing_registry ''fs'' = Inr st
         \<and> status_status st = ErrorStatus \<and> status_uptime st = Some 4000"
  using status_derivation[of failing_registry "''fs''" _ 5000]
  by (simp add: failing_registry_instances truthy_def)

text \<open>
  The claim as it is written fails: the instance of a server whose launch failed never
  initialized, and its status reports an uptime.
\<close>

theorem uptime_of_failed_instance:
  "map (\<lambda>e. inst_initialized (snd e)) (mcpServerInstances failing_registry) = [False]
   \<and> getServerStatus 5000 failing_registry ''fs'' =
       Inr \<lparr>status_name = ''fs'', status_type = Command, status_status = ErrorStatus,
            status_url = None,
            status_lastError = Some ''spawn nope ENOENT'', status_uptime = Some 4000\<rparr>"
  by (simp add: getServerStatus_def failing_registry_instances truthy_def)

subsection \<open>Transport client\<close>

lemma mcpRequest_fields:
  "mcpServersConfig (snd (mcpRequest w s n c sid ci)) = mcpServersConfig s
   \<and> mcpEnabled (snd (mcpRequest w s n c sid ci)) = mcpEnabled s
   \<and> mcpServerInstances (snd (mcpRequest w s n c sid ci)) = mcpServerInstances s
   \<and> mcpToolsCache (snd (mcpRequest w s n c sid ci)) = mcpToolsCache s
   \<and> mcpLastCacheTime (snd (mcpRequest w s n c sid ci)) = mcpLastCacheTime s
   \<and> toolToServerMap (snd (mcpRequest w s n c sid ci)) = toolToServerMap s
   \<and> mcpClient (snd (mcpRequest w s n c sid ci)) = mcpClient s
   \<and> next_handle (snd (mcpRequest w s n c sid ci)) = next_handle s
   \<and> running (snd (mcpRequest w s n c sid ci)) = running s
   \<and> backend_log (snd (mcpRequest w s n c sid ci)) = backend_log s"
  by (simp add: mcpRequest_def Let_def split: option.splits http_reply.splits sum.splits)

lemma mcpRequest_fst_cong:
  assumes "map_of (mcpServerInstances s) n = map_of (mcpServerInstances s') n"
  shows "fst (mcpRequest w s n c sid ci) = fst (mcpRequest w s' n c sid ci)"
  using assms
  by (simp add: mcpRequest_def Let_def split: option.splits http_reply.splits sum.splits)

lemma find_data_line_None:
  "find_data_line body = None \<longleftrightarrow>
   \<not> list_ex (\<lambda>line. startsWith line ''data: '') (split_lines (trim body))"
  by (auto simp: find_data_line_def find_None_iff list_ex_iff)

lemma mcpRequest_status:
  assumes "(case ci of Some i \<Rightarrow> Some i | None \<Rightarrow> map_of (mcpServerInstances s) n) = Some inst"
    and "inst_type inst \<noteq> Command"
    and "w_fetch w (http_request_of (inst_config inst) c sid) = HttpReply False code statusText body session"
  shows "fst (mcpRequest w s n c sid ci) = Inl (HTTPStatusError code statusText)"
  using assms by (simp add: mcpRequest_def Let_def)

lemma mcpRequest_framing:
  assumes "(case ci of Some i \<Rightarrow> Some i | None \<Rightarrow> map_of (mcpServerInstances s) n) = Some inst"
    and "inst_type inst \<noteq> Command"
    and "w_fetch w (http_request_of (inst_config inst) c sid) = HttpReply True code statusText body session"
    and "find_data_line body = None"
  shows "fst (mcpRequest w s n c sid ci) = Inl (FramingError body)"
  using assms by (simp add: mcpRequest_def Let_def)

lemma mcpRequest_protocol:
  assumes "(case ci of Some i \<Rightarrow> Some i | None \<Rightarrow> map_of (mcpServerInstances s) n) = Some inst"
    and "inst_type inst \<noteq> Command"
    and "w_fetch w (http_request_of (inst_config inst) c sid) = HttpReply True code statusText body session"
    and "find_data_line body = Some dataLine" "dataLine \<noteq> []"
    and "w_json_parse w dataLine = Inr data" "rp_error data = Some m"
  shows "fst (mcpRequest w s n c sid ci) = Inl (ProtocolError m)"
  using assms by (simp add: mcpRequest_def Let_def)

lemma initialize_failure_recorded:
  assumes cfg: "map_of (mcpServersConfig s) n = Some config"
    and ty: "getServerType (processServerConfig w config) = Inr ty" "ty \<noteq> Command"
    and fail: "fst (mcpRequest w (registered n (new_instance n (processServerConfig w config) ty now) s)
                  n Initialize None None) = Inl e"
  shows "map_of (mcpServerInstances (snd (initializeMCPServer w now s n))) n =
           Some ((new_instance n (processServerConfig w config) ty now)
                  \<lparr>inst_lastError := Some (message (HandshakeError n e))\<rparr>)"
proof -
  let ?i = "new_instance n (processServerConfig w config) ty now"
  let ?s1 = "registered n ?i s"
  obtain r s1' where r: "mcpRequest w ?s1 n Initialize None None = (r, s1')"
    by (cases "mcpRequest w ?s1 n Initialize None None")
  with fail have r': "r = Inl e" by simp
  have "start_sequence w ?s1 ?i = (Some (HandshakeError n e), ?i, s1')"
    using ty r r' by (simp add: start_sequence_def initializeHttpServer_def new_instance_def Let_def)
  then show ?thesis
    using cfg ty
    by (simp add: initializeMCPServer_def Let_def registered_def record_failure_def map_of_map_set)
qed

lemma handshake_message_truthy: "truthy (Some (message (HandshakeError n e)))"
  by (simp add: truthy_def)

text \<open>
  C8, as amended. An HTTP exchange that receives a response of a status other than
  success fails with the error of the status, whatever the body is. An exchange that
  receives a response of success status fails with \<open>FramingError\<close> whenever the body,
  trimmed of white space at both ends and split at line feeds, has no line that begins
  with the marker \<open>data: \<close>, and with \<open>ProtocolError\<close>, whose message carries the
  provider's, whenever the decoded payload has a truthy error member. When the
  \<open>initialize\<close> exchange of a start attempt fails with an error, in particular one of
  these, the instance is registered and not initialized, its \<open>lastError\<close> is the message
  of the failure behind the prefix that the handshake puts before it, and its derived
  status is \<open>error\<close> with that message.
\<close>

theorem http_exchange_errors:
  "((case ci of Some i \<Rightarrow> Some i | None \<Rightarrow> map_of (mcpServerInstances s) n) = Some inst
      \<and> inst_type inst \<noteq> Command
      \<and> w_fetch w (http_request_of (inst_config inst) c sid) =
          HttpReply False code statusText body session \<longrightarrow>
      fst (mcpRequest w s n c sid ci) = Inl (HTTPStatusError code statusText)
      \<and> message (HTTPStatusError code statusText) =
          ''HTTP '' @ show_nat code @ '': '' @ statusText)
   \<and> ((case ci of Some i \<Rightarrow> Some i | None \<Rightarrow> map_of (mcpServerInstances s) n) = Some inst
      \<and> inst_type inst \<noteq> Command
      \<and> w_fetch w (http_request_of (inst_config inst) c sid) =
          HttpReply True code statusText body session \<longrightarrow>
      (\<not> list_ex (\<lambda>line. startsWith line ''data: '') (split_lines (trim body)) \<longrightarrow>
         fst (mcpRequest w s n c sid ci) = Inl (FramingError body)
         \<and> message (FramingError body) = ''Invalid SSE response format: '' @ body)
      \<and> (find_data_line body = Some dataLine \<and> dataLine \<noteq> []
           \<and> w_json_parse w dataLine = Inr data \<and> rp_error data = Some m \<longrightarrow>
         fst (mcpRequest w s n c sid ci) = Inl (ProtocolError m)
         \<and> message (ProtocolError m) = ''MCP Error: '' @ m))
   \<and> (map_of (mcpServersConfig s) n = Some config
        \<and> getServerType (processServerConfig w config) = Inr ty \<and> ty \<noteq> Command
        \<and> fst (mcpRequest w (registered n (new_instance n (processServerConfig w config) ty now) s)
                  n Initialize None None) = Inl e \<longrightarrow>
       (\<exists>i st. map_of (mcpServerInstances (snd (initializeMCPServer w now s n))) n = Some i
          \<and> \<not> inst_initialized i
          \<and> inst_lastError i = Some (message (HandshakeError n e))
          \<and> message (HandshakeError n e) =
              ''Failed to initialize HTTP server '' @ n @ '': '' @ message e
          \<and> getServerStatus later (snd (initializeMCPServer w now s n)) n = Inr st
          \<and> status_status st = ErrorStatus
          \<and> status_lastError st = Some (message (HandshakeError n e))))"
proof -
  have status: "fst (mcpRequest w s n c sid ci) = Inl (HTTPStatusError code statusText)"
    if "(case ci of Some i \<Rightarrow> Some i | None \<Rightarrow> map_of (mcpServerInstances s) n) = Some inst
      \<and> inst_type inst \<noteq> Command
      \<and> w_fetch w (http_request_of (inst_config inst) c sid) =
          HttpReply False code statusText body session"
    using that
      mcpRequest_status[where ci = ci and s = s and n = n and inst = inst and w = w
        and c = c and sid = sid and code = code and statusText = statusText and body = body
        and session = session]
    by simp
  have framing: "fst (mcpRequest w s n c sid ci) = Inl (FramingError body)"
    if a: "(case ci of Some i \<Rightarrow> Some i | None \<Rightarrow> map_of (mcpServerInstances s) n) = Some inst
      \<and> inst_type inst \<noteq> Command
      \<and> w_fetch w (http_request_of (inst_config inst) c sid) =
          HttpReply True code statusText body session"
      and b: "\<not> list_ex (\<lambda>line. startsWith line ''data: '') (split_lines (trim body))"
  proof -
    from b have "find_data_line body = None" by (simp add: find_data_line_None)
    with a show ?thesis
      using mcpRequest_framing[where ci = ci and s = s and n = n and inst = inst and w = w
          and c = c and sid = sid and code = code and statusText = statusText and body = body
          and session = session] by simp
  qed
  have protocol: "fst (mcpRequest w s n c sid ci) = Inl (ProtocolError m)"
    if a: "(case ci of Some i \<Rightarrow> Some i | None \<Rightarrow> map_of (mcpServerInstances s) n) = Some inst
      \<and> inst_type inst \<noteq> Command
      \<and> w_fetch w (http_request_of (inst_config inst) c sid) =
          HttpReply True code statusText body session"
      and b: "find_data_line body = Some dataLine \<and> dataLine \<noteq> []
           \<and> w_json_parse w dataLine = Inr data \<and> rp_error data = Some m"
    using a b
      mcpRequest_protocol[where ci = ci and s = s and n = n and inst = inst and w = w
        and c = c and sid = sid and code = code and statusText = statusText and body = body
        and session = session and dataLine = dataLine and data = data and m = m]
    by simp
  have recorded: "\<exists>i st. map_of (mcpServerInstances (snd (initializeMCPServer w now s n))) n = Some i
          \<and> \<not> inst_initialized i
          \<and> inst_lastError i = Some (message (HandshakeError n e))
          \<and> message (HandshakeError n e) =
              ''Failed to initialize HTTP server '' @ n @ '': '' @ message e
          \<and> getServerStatus later (snd (initializeMCPServer w now s n)) n = Inr st
          \<and> status_status st = ErrorStatus
          \<and> status_lastError st = Some (message (HandshakeError n e))"
    if c: "map_of (mcpServersConfig s) n = Some config
        \<and> getServerType (processServerConfig w config) = Inr ty \<and> ty \<noteq> Command
        \<and> fst (mcpRequest w (registered n (new_instance n (processServerConfig w config) ty now) s)
                  n Initialize None None) = Inl e"
  proof -
    let ?i = "(new_instance n (processServerConfig w config) ty now)
                    \<lparr>inst_lastError := Some (message (HandshakeError n e))\<rparr>"
    have reg: "map_of (mcpServerInstances (snd (initializeMCPServer w now s n))) n = Some ?i"
      using c by (intro initialize_failure_recorded) simp_all
    have st: "\<exists>st. getServerStatus later (snd (initializeMCPServer w now s n)) n = Inr st
            \<and> status_status st = ErrorStatus
            \<and> status_lastError st = Some (message (HandshakeError n e))"
      using reg handshake_message_truthy[of n e]
      by (simp add: getServerStatus_def new_instance_def)
    have msg: "message (HandshakeError n e) =
                 ''Failed to initialize HTTP server '' @ n @ '': '' @ message e"
      by simp
    have ni: "\<not> inst_initialized ?i" by (simp add: new_instance_def)
    have le: "inst_lastError ?i = Some (message (HandshakeError n e))" by simp
    from reg st msg ni le show ?thesis by blast
  qed
  have m1: "message (HTTPStatusError code statusText) = ''HTTP '' @ show_nat code @ '': '' @ statusText"
    by simp
  have m2: "message (FramingError body) = ''Invalid SSE response format: '' @ body"
    by simp
  have m3: "message (ProtocolError m) = ''MCP Error: '' @ m"
    by simp
  from status framing protocol recorded m1 m2 m3 show ?thesis by blast
qed

theorem http_exchange_errors_witness:
  "fst (mcpRequest demo_world
          (registered ''down'' (new_instance ''down'' (http_server ''http://down'') Http 1000)
             down_client)
          ''down'' Initialize None None) = Inl (HTTPStatusError 500 ''Internal Server Error'')
   \<and> fst (mcpRequest demo_world
          (registered ''plain'' (new_instance ''plain'' (http_server ''http://plain'') Http 1000)
             plain_client)
          ''plain'' Initialize None None) = Inl (FramingError ''hello'')
   \<and> (\<exists>i st. map_of (mcpServerInstances (snd (initializeMCPServer demo_world 1000 plain_client ''plain'')))
                 ''plain'' = Some i
          \<and> \<not> inst_initialized i
          \<and> inst_lastError i =
              Some ''Failed to initialize HTTP server plain: Invalid SSE response format: hello''
          \<and> getServerStatus 5000 (snd (initializeMCPServer demo_world 1000 plain_client ''plain''))
                ''plain'' = Inr st
          \<and> status_status st = ErrorStatus
          \<and> status_lastError st =
              Some ''Failed to initialize HTTP server plain: Invalid SSE response format: hello'')
   \<and> fst (mcpRequest demo_world
          (registered ''err'' (new_instance ''err'' (http_server ''http://err'') Http 1000) err_client)
          ''err'' Initialize None None) = Inl (ProtocolError ''boom'')"
proof -
  let ?ip = "new_instance ''plain'' (http_server ''http://plain'') Http 1000"
  let ?ie = "new_instance ''err'' (http_server ''http://err'') Http 1000"
  let ?id = "new_instance ''down'' (http_server ''http://down'') Http 1000"
  have d1: "(case None of Some i \<Rightarrow> Some i
             | None \<Rightarrow> map_of (mcpServerInstances (registered ''down'' ?id down_client)) ''down'')
            = Some ?id" by code_simp
  have d2: "inst_type ?id \<noteq> Command" by code_simp
  have d3: "w_fetch demo_world (http_request_of (inst_config ?id) Initialize None) =
            HttpReply False 500 ''Internal Server Error'' ''oops'' None" by code_simp
  have p1: "(case None of Some i \<Rightarrow> Some i
             | None \<Rightarrow> map_of (mcpServerInstances (registered ''plain'' ?ip plain_client)) ''plain'')
            = Some ?ip" by code_simp
  have p2: "inst_type ?ip \<noteq> Command" by code_simp
  have p3: "w_fetch demo_world (http_request_of (inst_config ?ip) Initialize None) =
            HttpReply True 200 ''OK'' ''hello'' None" by code_simp
  have p4: "\<not> list_ex (\<lambda>line. startsWith line ''data: '') (split_lines (trim ''hello''))"
    by code_simp
  have p5: "map_of (mcpServersConfig plain_client) ''plain'' = Some (http_server ''http://plain'')"
    by code_simp
  have p6: "processServerConfig demo_world (http_server ''http://plain'') = http_server ''http://plain''"
    by code_simp
  have p7: "getServerType (http_server ''http://plain'') = Inr Http" by code_simp
  have p8: "message (HandshakeError ''plain'' (FramingError ''hello'')) =
            ''Failed to initialize HTTP server plain: Invalid SSE response format: hello''"
    by simp
  have e1: "(case None of Some i \<Rightarrow> Some i
             | None \<Rightarrow> map_of (mcpServerInstances (registered ''err'' ?ie err_client)) ''err'')
            = Some ?ie" by code_simp
  have e2: "inst_type ?ie \<noteq> Command" by code_simp
  have e3: "w_fetch demo_world (http_request_of (inst_config ?ie) Initialize None) =
            HttpReply True 200 ''OK'' ''data: ERR'' None" by code_simp
  have e4: "find_data_line ''data: ERR'' = Some ''ERR''" by code_simp
  have e5: "w_json_parse demo_world ''ERR'' = Inr \<lparr>rp_error = Some ''boom'', rp_result = Absent\<rparr>"
    by code_simp
  note T0 = http_exchange_errors[where ci = None and s = "registered ''down'' ?id down_client"
      and n = "''down''" and inst = ?id and w = demo_world and c = Initialize and sid = None
      and code = 500 and statusText = "''Internal Server Error''" and body = "''oops''"
      and session = None]
  note T1 = http_exchange_errors[where ci = None and s = "registered ''plain'' ?ip plain_client"
      and n = "''plain''" and inst = ?ip and w = demo_world and c = Initialize and sid = None
      and code = 200 and statusText = "''OK''" and body = "''hello''" and session = None]
  note T3 = http_exchange_errors[where s = plain_client and n = "''plain''" and w = demo_world
      and config = "http_server ''http://plain''" and ty = Http and now = 1000
      and e = "FramingError ''hello''" and later = 5000]
  note T2 = http_exchange_errors[where ci = None and s = "registered ''err'' ?ie err_client"
      and n = "''err''" and inst = ?ie and w = demo_world and c = Initialize and sid = None
      and code = 200 and statusText = "''OK''" and body = "''data: ERR''" and session = None
      and dataLine = "''ERR''" and data = "\<lparr>rp_error = Some ''boom'', rp_result = Absent\<rparr>"
      and m = "''boom''"]
  have d: "fst (mcpRequest demo_world (registered ''down'' ?id down_client)
             ''down'' Initialize None None) = Inl (HTTPStatusError 500 ''Internal Server Error'')"
    using T0 d1 d2 d3 by simp
  have f: "fst (mcpRequest demo_world (registered ''plain'' ?ip plain_client)
             ''plain'' Initialize None None) = Inl (FramingError ''hello'')"
    using T1 p1 p2 p3 p4 by simp
  have g: "fst (mcpRequest demo_world (registered ''err'' ?ie err_client)
             ''err'' Initialize None None) = Inl (ProtocolError ''boom'')"
    using T2 e1 e2 e3 e4 e5 by simp
  have h: "\<exists>i st. map_of (mcpServerInstances (snd (initializeMCPServer demo_world 1000 plain_client ''plain'')))
                 ''plain'' = Some i
          \<and> \<not> inst_initialized i
          \<and> inst_lastError i = Some (message (HandshakeError ''plain'' (FramingError ''hello'')))
          \<and> getServerStatus 5000 (snd (initializeMCPServer demo_world 1000 plain_client ''plain''))
                ''plain'' = Inr st
          \<and> status_status st = ErrorStatus
          \<and> status_lastError st = Some (message (HandshakeError ''plain'' (FramingError ''hello'')))"
    using T3 p5 p6 p7 f by simp
  show ?thesis using d f g h unfolding p8 by blast
qed

subsection \<open>Server registry\<close>

lemma kill_fields:
  "mcpToolsCache (kill h s) = mcpToolsCache s \<and> mcpLastCacheTime (kill h s) = mcpLastCacheTime s
   \<and> mcpServerInstances (kill h s) = mcpServerInstances s
   \<and> mcpServersConfig (kill h s) = mcpServersConfig s"
  by (simp add: kill_def)

lemma initializeCommandServer_fields:
  "mcpToolsCache (snd (snd (initializeCommandServer w s i))) = mcpToolsCache s
   \<and> mcpLastCacheTime (snd (snd (initializeCommandServer w s i))) = mcpLastCacheTime s
   \<and> mcpServerInstances (snd (snd (initializeCommandServer w s i))) = mcpServerInstances s
   \<and> mcpServersConfig (snd (snd (initializeCommandServer w s i))) = mcpServersConfig s"
  by (simp add: initializeCommandServer_def Let_def split: spawn_outcome.splits)

lemma initializeHttpServer_fields:
  "mcpToolsCache (snd (snd (initializeHttpServer w s i))) = mcpToolsCache s
   \<and> mcpLastCacheTime (snd (snd (initializeHttpServer w s i))) = mcpLastCacheTime s
   \<and> mcpServerInstances (snd (snd (initializeHttpServer w s i))) = mcpServerInstances s
   \<and> mcpServersConfig (snd (snd (initializeHttpServer w s i))) = mcpServersConfig s"
proof -
  obtain r s1 where r: "mcpRequest w s (inst_name i) Initialize None None = (r, s1)"
    by (cases "mcpRequest w s (inst_name i) Initialize None None")
  have s1: "mcpToolsCache s1 = mcpToolsCache s \<and> mcpLastCacheTime s1 = mcpLastCacheTime s
            \<and> mcpServerInstances s1 = mcpServerInstances s
            \<and> mcpServersConfig s1 = mcpServersConfig s"
    using mcpRequest_fields[of w s "inst_name i" Initialize None None] r by simp
  show ?thesis
    using r s1 mcpRequest_fields[of w s1 "inst_name i" NotificationsInitialized _ None]
    by (simp add: initializeHttpServer_def Let_def split: sum.splits result_member.splits prod.splits)
qed

lemma start_sequence_fields:
  "mcpToolsCache (snd (snd (start_sequence w s i))) = mcpToolsCache s
   \<and> mcpLastCacheTime (snd (snd (start_sequence w s i))) = mcpLastCacheTime s
   \<and> mcpServerInstances (snd (snd (start_sequence w s i))) = mcpServerInstances s
   \<and> mcpServersConfig (snd (snd (start_sequence w s i))) = mcpServersConfig s"
  by (simp add: start_sequence_def initializeCommandServer_fields initializeHttpServer_fields)

lemma initializeMCPServer_cache:
  "mcpToolsCache (snd (initializeMCPServer w now s n)) = mcpToolsCache s
   \<and> mcpLastCacheTime (snd (initializeMCPServer w now s n)) = mcpLastCacheTime s
   \<and> mcpServersConfig (snd (initializeMCPServer w now s n)) = mcpServersConfig s"
proof (cases "map_of (mcpServersConfig s) n")
  case None
  then show ?thesis by (simp add: initializeMCPServer_def)
next
  case (Some config)
  show ?thesis
  proof (cases "getServerType (processServerConfig w config)")
    case (Inl e)
    with Some show ?thesis by (simp add: initializeMCPServer_def Let_def)
  next
    case (Inr ty)
    let ?i = "new_instance n (processServerConfig w config) ty now"
    let ?s1 = "s\<lparr>mcpServerInstances := map_set n ?i (mcpServerInstances s)\<rparr>"
    obtain err i' s2 where st: "start_sequence w ?s1 ?i = (err, i', s2)"
      by (cases "start_sequence w ?s1 ?i") auto
    from start_sequence_fields[of w ?s1 ?i] st
    have "mcpToolsCache s2 = mcpToolsCache s \<and> mcpLastCacheTime s2 = mcpLastCacheTime s
          \<and> mcpServersConfig s2 = mcpServersConfig s" by simp
    with Some Inr st show ?thesis by (simp add: initializeMCPServer_def Let_def)
  qed
qed

lemma restartMCPServer_cache:
  "mcpToolsCache (snd (restartMCPServer w now s n)) = mcpToolsCache s
   \<and> mcpLastCacheTime (snd (restartMCPServer w now s n)) = mcpLastCacheTime s"
  by (simp add: restartMCPServer_def Let_def initializeMCPServer_cache kill_fields
           split: option.splits)

text \<open>
  The claim as it is written fails: the status of the response is tested before the body
  is read, and a response of status 500 whose body has no event line fails the exchange
  with the error of the status.
\<close>

theorem failed_status_not_framing:
  "list_ex (\<lambda>line. startsWith line ''data: '') (split_lines (trim ''oops'')) = False
   \<and> w_fetch demo_world (http_request_of (http_server ''http://down'') Initialize None) =
       HttpReply False 500 ''Internal Server Error'' ''oops'' None
   \<and> fst (mcpRequest demo_world
            (registered ''down'' (new_instance ''down'' (http_server ''http://down'') Http 1000)
               down_client)
            ''down'' Initialize None None) = Inl (HTTPStatusError 500 ''Internal Server Error'')
   \<and> map (\<lambda>e. inst_lastError (snd e))
        (mcpServerInstances (initializeMCP demo_world 1000 down_client)) =
       [Some ''Failed to initialize HTTP server down: HTTP 500: Internal Server Error'']"
  by code_simp

subsection \<open>Tool catalog cache\<close>

text \<open>
  C3, as amended. The cached list is returned, with the state as it was and so without an
  exchange with any server, exactly when a list has been captured less than 30000 ms
  before; otherwise the catalog is rebuilt and captured with the current time, or is empty
  when the client is disabled or has no instance. Restarting a server changes neither
  the cached list nor its capture time: within that time \<open>getMCPTools\<close> after a restart
  returns the list captured before it.
\<close>

theorem cache_validity:
  "(mcpToolsCache s = Some cached \<and> now - mcpLastCacheTime s < 30000 \<longrightarrow>
      getMCPTools w now s = (cached, s))
   \<and> (\<not> (mcpToolsCache s \<noteq> None \<and> now - mcpLastCacheTime s < 30000)
        \<and> mcpEnabled s \<and> mcpServerInstances s \<noteq> [] \<longrightarrow>
      getMCPTools w now s =
        (fst (getMCPToolsInternal w s),
         (snd (getMCPToolsInternal w s))
           \<lparr>mcpToolsCache := Some (fst (getMCPToolsInternal w s)), mcpLastCacheTime := now\<rparr>))
   \<and> (\<not> (mcpToolsCache s \<noteq> None \<and> now - mcpLastCacheTime s < 30000)
        \<and> (\<not> mcpEnabled s \<or> mcpServerInstances s = []) \<longrightarrow>
      getMCPTools w now s = ([], s))
   \<and> mcpToolsCache (snd (restartMCPServer w' t s serverName)) = mcpToolsCache s
   \<and> mcpLastCacheTime (snd (restartMCPServer w' t s serverName)) = mcpLastCacheTime s
   \<and> (mcpToolsCache s = Some cached \<and> now - mcpLastCacheTime s < 30000 \<longrightarrow>
        getMCPTools w now (snd (restartMCPServer w' t s serverName)) =
          (cached, snd (restartMCPServer w' t s serverName)))"
  by (auto simp: getMCPTools_def CACHE_DURATION_def restartMCPServer_cache split: prod.splits)

lemma fs_cached_cache:
  "mcpToolsCache fs_cached = Some [format_tool ''fs'' False (listed ''read_file''),
                                   format_tool ''fs'' False (listed ''ping'')]
   \<and> mcpLastCacheTime fs_cached = 2000"
  by code_simp

theorem cache_validity_witness:
  "getMCPTools demo_world 3000 fs_cached =
     ([format_tool ''fs'' False (listed ''read_file''), format_tool ''fs'' False (listed ''ping'')],
      fs_cached)
   \<and> mcpLastCacheTime fs_restarted = 2000"
  using cache_validity[of fs_cached _ 3000 demo_world demo_world_after 3000 "''fs''"]
  by (simp add: fs_cached_cache fs_restarted_def)

text \<open>
  The claim as it is written fails: the server \<open>fs\<close> is restarted after the capture and
  lists another tool now, and \<open>getMCPTools\<close> still returns the list captured before.
\<close>

theorem stale_catalog_after_restart:
  "fst (getMCPTools demo_world_after 4000 fs_restarted) =
     [format_tool ''fs'' False (listed ''read_file''), format_tool ''fs'' False (listed ''ping'')]
   \<and> fst (getMCPToolsInternal demo_world_after fs_restarted) =
     [format_tool ''fs'' False (listed ''query'')]"
  by code_simp

subsection \<open>Batch initialization\<close>

lemma initializeCommandServer_settled:
  "fst (initializeCommandServer w s i) = fst (initializeCommandServer w s' i)
   \<and> settled (fst (snd (initializeCommandServer w s i))) =
       settled (fst (snd (initializeCommandServer w s' i)))"
  by (simp add: initializeCommandServer_def Let_def settled_def split: spawn_outcome.splits)

lemma initializeHttpServer_cong:
  assumes "fst (mcpRequest w s (inst_name i) Initialize None None) =
           fst (mcpRequest w s' (inst_name i) Initialize None None)"
  shows "fst (initializeHttpServer w s i) = fst (initializeHttpServer w s' i)
         \<and> fst (snd (initializeHttpServer w s i)) = fst (snd (initializeHttpServer w s' i))"
proof -
  obtain r s1 where r: "mcpRequest w s (inst_name i) Initialize None None = (r, s1)"
    by (cases "mcpRequest w s (inst_name i) Initialize None None")
  obtain r' s1' where r': "mcpRequest w s' (inst_name i) Initialize None None = (r', s1')"
    by (cases "mcpRequest w s' (inst_name i) Initialize None None")
  from assms r r' have "r' = r" by simp
  with r r' show ?thesis
    by (simp add: initializeHttpServer_def Let_def split: sum.splits result_member.splits prod.splits)
qed

lemma start_sequence_settled:
  assumes "map_of (mcpServerInstances s) (inst_name i) = map_of (mcpServerInstances s') (inst_name i)"
  shows "fst (start_sequence w s i) = fst (start_sequence w s' i)
         \<and> settled (fst (snd (start_sequence w s i))) = settled (fst (snd (start_sequence w s' i)))"
proof (cases "inst_type i = Command")
  case True
  then show ?thesis
    using initializeCommandServer_settled[of w s i s'] by (simp add: start_sequence_def)
next
  case False
  then show ?thesis
    using initializeHttpServer_cong[OF mcpRequest_fst_cong[OF assms,
            where w = w and c = Initialize and sid = None and ci = None]]
    by (simp add: start_sequence_def)
qed

lemma settled_record_failure: "settled (record_failure err i) = record_failure err (settled i)"
  by (simp add: settled_def record_failure_def split: option.splits)

text \<open>The entry of its own name after a start attempt, up to the handle.\<close>

lemma initializeMCPServer_own:
  assumes "map_of (mcpServersConfig s) n = Some c" "map_of (mcpServersConfig s') n = Some c"
  shows "map_option settled (map_of (mcpServerInstances (snd (initializeMCPServer w now s n))) n) =
         map_option settled (map_of (mcpServerInstances (snd (initializeMCPServer w now s' n))) n)
         \<or> (\<exists>e. getServerType (processServerConfig w c) = Inl e)"
proof (cases "getServerType (processServerConfig w c)")
  case (Inl e)
  then show ?thesis by simp
next
  case (Inr ty)
  let ?i = "new_instance n (processServerConfig w c) ty now"
  let ?s1 = "s\<lparr>mcpServerInstances := map_set n ?i (mcpServerInstances s)\<rparr>"
  let ?s1' = "s'\<lparr>mcpServerInstances := map_set n ?i (mcpServerInstances s')\<rparr>"
  obtain err i' s2 where st: "start_sequence w ?s1 ?i = (err, i', s2)"
    by (cases "start_sequence w ?s1 ?i") auto
  obtain err' i'' s2' where st': "start_sequence w ?s1' ?i = (err', i'', s2')"
    by (cases "start_sequence w ?s1' ?i") auto
  have "map_of (mcpServerInstances ?s1) (inst_name ?i) = map_of (mcpServerInstances ?s1') (inst_name ?i)"
    by (simp add: new_instance_def map_of_map_set)
  from start_sequence_settled[OF this, of w] st st'
  have eq: "err' = err" "settled i'' = settled i'" by simp_all
  have "settled (record_failure err' i'') = settled (record_failure err i')"
    using eq by (simp add: settled_record_failure)
  with assms Inr st st' show ?thesis
    by (simp add: initializeMCPServer_def Let_def map_of_map_set)
qed

lemma initializeMCPServer_other:
  assumes "m \<noteq> n"
  shows "map_of (mcpServerInstances (snd (initializeMCPServer w now s n))) m =
         map_of (mcpServerInstances s) m"
proof (cases "map_of (mcpServersConfig s) n")
  case None
  then show ?thesis by (simp add: initializeMCPServer_def)
next
  case (Some config)
  show ?thesis
  proof (cases "getServerType (processServerConfig w config)")
    case (Inl e)
    with Some show ?thesis by (simp add: initializeMCPServer_def Let_def)
  next
    case (Inr ty)
    let ?i = "new_instance n (processServerConfig w config) ty now"
    let ?s1 = "s\<lparr>mcpServerInstances := map_set n ?i (mcpServerInstances s)\<rparr>"
    obtain err i' s2 where st: "start_sequence w ?s1 ?i = (err, i', s2)"
      by (cases "start_sequence w ?s1 ?i") auto
    from start_sequence_fields[of w ?s1 ?i] st
    have "mcpServerInstances s2 = map_set n ?i (mcpServerInstances s)" by simp
    with Some Inr st assms show ?thesis
      by (simp add: initializeMCPServer_def Let_def map_of_map_set)
  qed
qed

lemma initializeMCPServer_rejected:
  assumes "map_of (mcpServersConfig s) n = Some c" "getServerType (processServerConfig w c) = Inl e"
  shows "initializeMCPServer w now s n = (Some e, s)"
  using assms by (simp add: initializeMCPServer_def Let_def)

lemma batch_other:
  "n \<notin> set names \<Longrightarrow>
   map_of (mcpServerInstances
            (fold (\<lambda>serverName st. snd (initializeMCPServer w now st serverName)) names s)) n =
   map_of (mcpServerInstances s) n"
proof (induction names arbitrary: s)
  case Nil
  then show ?case by simp
next
  case (Cons a names)
  then have "n \<noteq> a" "n \<notin> set names" by auto
  with Cons.IH[of "snd (initializeMCPServer w now s a)"] initializeMCPServer_other[of n a w now s]
  show ?case by simp
qed

lemma batch_own:
  assumes "distinct names" "n \<in> set names" "map_of (mcpServersConfig s) n = Some c"
    and "map_of (mcpServerInstances s) n = None"
  shows "map_option settled
           (map_of (mcpServerInstances
              (fold (\<lambda>serverName st. snd (initializeMCPServer w now st serverName)) names s)) n) =
         map_option settled (started_alone w now n c)"
  using assms
proof (induction names arbitrary: s)
  case Nil
  then show ?case by simp
next
  case (Cons a names)
  let ?step = "\<lambda>serverName st. snd (initializeMCPServer w now st serverName)"
  show ?case
  proof (cases "a = n")
    case True
    with Cons.prems have notin: "n \<notin> set names" by simp
    have alone_cfg: "map_of (mcpServersConfig (new_client True [(n, c)])) n = Some c"
      by (simp add: new_client_def)
    have own: "map_option settled (map_of (mcpServerInstances (?step n s)) n) =
               map_option settled (started_alone w now n c)"
    proof (cases "getServerType (processServerConfig w c)")
      case (Inl e)
      from initializeMCPServer_rejected[OF Cons.prems(3) Inl, of now]
           initializeMCPServer_rejected[OF alone_cfg Inl, of now] Cons.prems(4)
      show ?thesis by (simp add: started_alone_def new_client_def)
    next
      case (Inr ty)
      with initializeMCPServer_own[OF Cons.prems(3) alone_cfg, of w now]
      show ?thesis by (simp add: started_alone_def)
    qed
    from batch_other[OF notin, of w now "?step n s"] own True show ?thesis by simp
  next
    case False
    with Cons.prems have "distinct names" "n \<in> set names" by auto
    moreover have "map_of (mcpServersConfig (?step a s)) n = Some c"
      using Cons.prems(3) by (simp add: initializeMCPServer_cache)
    moreover have "map_of (mcpServerInstances (?step a s)) n = None"
      using Cons.prems(4) False initializeMCPServer_other[of n a w now s] by simp
    ultimately show ?thesis using Cons.IH[of "?step a s"] by simp
  qed
qed

lemma collect_tools_instances:
  "mcpServerInstances (snd (collect_tools w es acc s)) = mcpServerInstances s"
proof (induction es arbitrary: acc s)
  case Nil
  then show ?case by simp
next
  case (Cons e es)
  obtain serverName inst where e: "e = (serverName, inst)" by (cases e)
  obtain r s1 where r: "mcpRequest w s serverName ToolsList (inst_sessionId inst) None = (r, s1)"
    by (cases "mcpRequest w s serverName ToolsList (inst_sessionId inst) None")
  have s1: "mcpServerInstances s1 = mcpServerInstances s"
    using mcpRequest_fields[of w s serverName ToolsList "inst_sessionId inst" None] r by simp
  show ?case
    using Cons.IH r s1 by (simp add: e Let_def split: sum.splits prod.splits)
qed

lemma getMCPToolsInternal_instances:
  "mcpServerInstances (snd (getMCPToolsInternal w s)) = mcpServerInstances s"
  by (simp add: getMCPToolsInternal_def collect_tools_instances)

lemma initializeMCP_instances:
  assumes "servers \<noteq> []"
  shows "mcpServerInstances (initializeMCP w now (new_client True servers)) =
         mcpServerInstances
           (fold (\<lambda>serverName st. snd (initializeMCPServer w now st serverName)) (map fst servers)
              ((new_client True servers)\<lparr>mcpClient := True\<rparr>))"
  using assms
  by (simp add: initializeMCP_def Let_def new_client_def getMCPToolsInternal_instances)

lemma start_sequence_failed:
  assumes "\<not> inst_initialized i" "fst (start_sequence w s i) = Some e"
  shows "\<not> inst_initialized (fst (snd (start_sequence w s i)))"
proof (cases "inst_type i = Command")
  case True
  with assms show ?thesis
    by (simp add: start_sequence_def initializeCommandServer_def Let_def split: spawn_outcome.splits)
next
  case False
  obtain r s1 where r: "mcpRequest w s (inst_name i) Initialize None None = (r, s1)"
    by (cases "mcpRequest w s (inst_name i) Initialize None None")
  with False assms show ?thesis
    by (simp add: start_sequence_def initializeHttpServer_def Let_def
             split: sum.splits result_member.splits prod.splits)
qed

lemma started_alone_failure:
  assumes "start_failure w now n c = Some e"
  shows "\<exists>i. started_alone w now n c = Some i \<and> \<not> inst_initialized i
              \<and> inst_lastError i = Some (message e)"
proof -
  from assms obtain ty where ty: "getServerType (processServerConfig w c) = Inr ty"
    by (cases "getServerType (processServerConfig w c)") (simp_all add: start_failure_def)
  let ?i = "new_instance n (processServerConfig w c) ty now"
  let ?s1 = "registered n ?i (new_client True [(n, c)])"
  obtain err i' s2 where st: "start_sequence w ?s1 ?i = (err, i', s2)"
    by (cases "start_sequence w ?s1 ?i") auto
  from assms ty st have err: "err = Some e" by (simp add: start_failure_def)
  have "\<not> inst_initialized ?i" by (simp add: new_instance_def)
  from start_sequence_failed[OF this, of w ?s1 e] st err have ni: "\<not> inst_initialized i'" by simp
  have "started_alone w now n c = Some (record_failure err i')"
    using ty st
    by (simp add: started_alone_def initializeMCPServer_def Let_def new_client_def
          registered_def map_of_map_set)
  with err ni show ?thesis by (simp add: record_failure_def)
qed

text \<open>
  C7, as amended. In the batch initialization of a client whose configuration has distinct
  server names, the instance a server ends with is, up to the handle of its subprocess,
  the instance it ends with when it is started alone: no other server's start attempt
  changes it, so a server that connects alone connects in every batch. A failure raised
  by the start sequence of a server is recorded as \<open>lastError\<close> on that server's own
  instance, which stays uninitialized. \<open>initializeMCP\<close> has no error result: what an
  attempt is rejected with is dropped.
\<close>

theorem batch_initialization_isolated:
  assumes "distinct (map fst servers)" and "(n, c) \<in> set servers"
  shows "map_option settled
           (map_of (mcpServerInstances (initializeMCP w now (new_client True servers))) n) =
         map_option settled (started_alone w now n c)
       \<and> (start_failure w now n c = Some e \<longrightarrow>
            (\<exists>i. map_of (mcpServerInstances (initializeMCP w now (new_client True servers))) n = Some i
               \<and> \<not> inst_initialized i \<and> inst_lastError i = Some (message e)))"
proof -
  let ?s0 = "(new_client True servers)\<lparr>mcpClient := True\<rparr>"
  from assms have ne: "servers \<noteq> []" by auto
  have cfg: "map_of (mcpServersConfig ?s0) n = Some c"
    using assms by (simp add: new_client_def)
  have none: "map_of (mcpServerInstances ?s0) n = None" by (simp add: new_client_def)
  have mem: "n \<in> set (map fst servers)" using assms(2) by force
  have eq: "map_option settled
           (map_of (mcpServerInstances (initializeMCP w now (new_client True servers))) n) =
         map_option settled (started_alone w now n c)"
    using batch_own[OF assms(1) mem cfg none, of w now] initializeMCP_instances[OF ne, of w now]
    by simp
  {
    assume "start_failure w now n c = Some e"
    from started_alone_failure[OF this] obtain i where
      i: "started_alone w now n c = Some i" "\<not> inst_initialized i"
         "inst_lastError i = Some (message e)" by blast
    from eq i(1) obtain j where
      j: "map_of (mcpServerInstances (initializeMCP w now (new_client True servers))) n = Some j"
         "settled j = settled i" by auto
    from arg_cong[OF j(2), of inst_initialized] arg_cong[OF j(2), of inst_lastError]
    have "inst_initialized j = inst_initialized i" "inst_lastError j = inst_lastError i"
      by (simp_all add: settled_def)
    with i j(1) have "\<exists>i. map_of (mcpServerInstances (initializeMCP w now (new_client True servers))) n = Some i
               \<and> \<not> inst_initialized i \<and> inst_lastError i = Some (message e)" by simp
  }
  with eq show ?thesis by blast
qed

theorem batch_initialization_isolated_witness:
  "map_option settled
     (map_of (mcpServerInstances (initializeMCP demo_world 1000 (new_client True mixed_servers)))
        ''fs'') =
   map_option settled (started_alone demo_world 1000 ''fs'' (http_server ''http://fs''))
   \<and> map_option inst_initialized
        (started_alone demo_world 1000 ''fs'' (http_server ''http://fs'')) = Some True
   \<and> (\<exists>i. map_of (mcpServerInstances (initializeMCP demo_world 1000 (new_client True mixed_servers)))
              ''nope'' = Some i
          \<and> \<not> inst_initialized i \<and> inst_lastError i = Some ''spawn nope ENOENT'')"
proof -
  have d: "distinct (map fst mixed_servers)" by (simp add: mixed_servers_def)
  have m1: "(''fs'', http_server ''http://fs'') \<in> set mixed_servers"
    by (simp add: mixed_servers_def)
  have m2: "(''nope'', command_server ''nope'') \<in> set mixed_servers"
    by (simp add: mixed_servers_def)
  have f: "start_failure demo_world 1000 ''nope'' (command_server ''nope'') =
           Some (SpawnError ''spawn nope ENOENT'')" by code_simp
  have c: "map_option inst_initialized
        (started_alone demo_world 1000 ''fs'' (http_server ''http://fs'')) = Some True"
    by code_simp
  from batch_initialization_isolated[OF d m1, of demo_world 1000]
       batch_initialization_isolated[OF d m2, of demo_world 1000 "SpawnError ''spawn nope ENOENT''"]
       f c
  show ?thesis by simp
qed

text \<open>
  The claim as it is written fails. The start attempt of a server whose definition names no
  transport is rejected before an instance exists, and a server whose \<open>initialize\<close>
  reply has no result is left uninitialized without an error: neither failure to start
  is recorded as \<open>lastError\<close>, and the second server's status is \<open>disconnected\<close>.
\<close>

theorem unrecorded_start_failures:
  "fst (initializeMCPServer demo_world 1000 (new_client True bad_servers) ''bad'') = Some ConfigError
   \<and> map (\<lambda>e. (fst e, inst_initialized (snd e), inst_lastError (snd e)))
        (mcpServerInstances (initializeMCP demo_world 1000 (new_client True bad_servers))) =
      [(''quiet'', False, None), (''fs'', True, None)]
   \<and> map_sum id status_status
        (getServerStatus 5000 (initializeMCP demo_world 1000 (new_client True bad_servers)) ''quiet'')
      = Inr Disconnected"
  by code_simp

subsection \<open>Tool execution\<close>

lemma createChatCompletion_state:
  "snd (createChatCompletion w s options) = s\<lparr>backend_log := backend_log s @ [options]\<rparr>"
  by (simp add: createChatCompletion_def Let_def split: sum.splits)

lemma callToolOnServer_backend_log:
  "backend_log (snd (callToolOnServer w s serverName toolName args)) = backend_log s"
proof (cases "map_of (mcpServerInstances s) serverName")
  case None
  then show ?thesis by (simp add: callToolOnServer_def)
next
  case (Some inst)
  obtain r s1 where r: "mcpRequest w s serverName (ToolsCall toolName args) (inst_sessionId inst) None
                        = (r, s1)"
    by (cases "mcpRequest w s serverName (ToolsCall toolName args) (inst_sessionId inst) None")
  from mcpRequest_fields[of w s serverName "ToolsCall toolName args" "inst_sessionId inst" None] r
  have "backend_log s1 = backend_log s" by simp
  with Some r show ?thesis
    by (simp add: callToolOnServer_def split: sum.splits prod.splits)
qed

lemma callToolByName_backend_log:
  "backend_log (snd (callToolByName w s toolName args)) = backend_log s"
  by (simp add: callToolByName_def callToolOnServer_backend_log split: option.splits)

lemma callToolWithServers_loop_backend_log:
  "backend_log (snd (callToolWithServers_loop w toolName args prs s)) = backend_log s"
proof (induction prs arbitrary: s)
  case Nil
  then show ?case by (simp add: callToolByName_backend_log)
next
  case (Cons e prs)
  obtain serverName inst where e: "e = (serverName, inst)" by (cases e)
  obtain r s1 where r: "mcpRequest w s serverName ToolsList (inst_sessionId inst) (Some inst) = (r, s1)"
    by (cases "mcpRequest w s serverName ToolsList (inst_sessionId inst) (Some inst)")
  obtain r2 s2 where r2: "mcpRequest w s1 serverName (ToolsCall toolName args) (inst_sessionId inst)
                            (Some inst) = (r2, s2)"
    by (cases "mcpRequest w s1 serverName (ToolsCall toolName args) (inst_sessionId inst) (Some inst)")
  have b1: "backend_log s1 = backend_log s"
    using mcpRequest_fields[of w s serverName ToolsList "inst_sessionId inst" "Some inst"] r by simp
  have b2: "backend_log s2 = backend_log s"
    using mcpRequest_fields[of w s1 serverName "ToolsCall toolName args" "inst_sessionId inst" "Some inst"]
          r2 b1 by simp
  show ?case
    using Cons.IH r r2 b1 b2 by (simp add: e split: sum.splits prod.splits)
qed

lemma dispatch_tool_call_backend_log:
  "backend_log (snd (dispatch_tool_call w s name args prs)) = backend_log s"
  using callToolWithServers_loop_backend_log[of w name args prs s]
  by (auto simp: dispatch_tool_call_def callToolWithServers_def split: prod.splits sum.splits)

lemma execute_tool_call_streaming_result:
  "tr_tool_call_id (fst (execute_tool_call_streaming w s fb prs totalTools index toolCall)) = tc_id toolCall
   \<and> backend_log (snd (snd (execute_tool_call_streaming w s fb prs totalTools index toolCall))) =
       backend_log s"
  by (simp add: execute_tool_call_streaming_def Let_def tool_message_def case_prod_beta
           dispatch_tool_call_backend_log split: sum.splits)

lemma execute_tool_calls_streaming_results:
  "map tr_tool_call_id (fst (execute_tool_calls_streaming w fb prs totalTools index calls acc out s)) =
     map tr_tool_call_id acc @ map tc_id calls
   \<and> backend_log (snd (snd (execute_tool_calls_streaming w fb prs totalTools index calls acc out s))) =
       backend_log s"
proof (induction calls arbitrary: index acc out s)
  case Nil
  then show ?case by simp
next
  case (Cons toolCall calls)
  obtain r evs s1 where r: "execute_tool_call_streaming w s fb prs totalTools index toolCall = (r, evs, s1)"
    by (cases "execute_tool_call_streaming w s fb prs totalTools index toolCall") auto
  from execute_tool_call_streaming_result[of w s fb prs totalTools index toolCall] r
  have "tr_tool_call_id r = tc_id toolCall" "backend_log s1 = backend_log s" by simp_all
  with Cons.IH[of "index + 1" "acc @ [r]" "out @ evs" s1] r show ?case by simp
qed

lemma execute_tool_call_result:
  "tr_tool_call_id (fst (execute_tool_call w s prs toolCall)) = tc_id toolCall
   \<and> backend_log (snd (execute_tool_call w s prs toolCall)) = backend_log s"
  by (simp add: execute_tool_call_def tool_message_def case_prod_beta
           dispatch_tool_call_backend_log split: sum.splits)

lemma execute_tool_calls_results:
  "map tr_tool_call_id (fst (execute_tool_calls w prs calls acc s)) =
     map tr_tool_call_id acc @ map tc_id calls
   \<and> backend_log (snd (execute_tool_calls w prs calls acc s)) = backend_log s"
proof (induction calls arbitrary: acc s)
  case Nil
  then show ?case by simp
next
  case (Cons toolCall calls)
  obtain r s1 where r: "execute_tool_call w s prs toolCall = (r, s1)"
    by (cases "execute_tool_call w s prs toolCall")
  from execute_tool_call_result[of w s prs toolCall] r
  have "tr_tool_call_id r = tc_id toolCall" "backend_log s1 = backend_log s" by simp_all
  with Cons.IH[of "acc @ [r]" s1] r show ?case by simp
qed

subsection \<open>After the initial stream\<close>




subsection \<open>Subprocesses of a turn\<close>

lemma callToolOnServer_running:
  "running (snd (callToolOnServer w s serverName toolName args)) = running s"
proof (cases "map_of (mcpServerInstances s) serverName")
  case None
  then show ?thesis by (simp add: callToolOnServer_def)
next
  case (Some inst)
  obtain r s1 where r: "mcpRequest w s serverName (ToolsCall toolName args) (inst_sessionId inst) None
                        = (r, s1)"
    by (cases "mcpRequest w s serverName (ToolsCall toolName args) (inst_sessionId inst) None")
  from mcpRequest_fields[of w s serverName "ToolsCall toolName args" "inst_sessionId inst" None] r
  have "running s1 = running s" by simp
  with Some r show ?thesis
    by (simp add: callToolOnServer_def split: sum.splits prod.splits)
qed

lemma callToolByName_running:
  "running (snd (callToolByName w s toolName args)) = running s"
  by (simp add: callToolByName_def callToolOnServer_running split: option.splits)

lemma callToolWithServers_loop_running:
  "running (snd (callToolWithServers_loop w toolName args prs s)) = running s"
proof (induction prs arbitrary: s)
  case Nil
  then show ?case by (simp add: callToolByName_running)
next
  case (Cons e prs)
  obtain serverName inst where e: "e = (serverName, inst)" by (cases e)
  obtain r s1 where r: "mcpRequest w s serverName ToolsList (inst_sessionId inst) (Some inst) = (r, s1)"
    by (cases "mcpRequest w s serverName ToolsList (inst_sessionId inst) (Some inst)")
  obtain r2 s2 where r2: "mcpRequest w s1 serverName (ToolsCall toolName args) (inst_sessionId inst)
                            (Some inst) = (r2, s2)"
    by (cases "mcpRequest w s1 serverName (ToolsCall toolName args) (inst_sessionId inst) (Some inst)")
  have b1: "running s1 = running s"
    using mcpRequest_fields[of w s serverName ToolsList "inst_sessionId inst" "Some inst"] r by simp
  have b2: "running s2 = running s"
    using mcpRequest_fields[of w s1 serverName "ToolsCall toolName args" "inst_sessionId inst" "Some inst"]
          r2 b1 by simp
  show ?case
    using Cons.IH r r2 b1 b2 by (simp add: e split: sum.splits prod.splits)
qed

lemma dispatch_tool_call_running:
  "running (snd (dispatch_tool_call w s name args prs)) = running s"
  using callToolWithServers_loop_running[of w name args prs s]
  by (auto simp: dispatch_tool_call_def callToolWithServers_def split: prod.splits sum.splits)

lemma execute_tool_call_streaming_running:
  "running (snd (snd (execute_tool_call_streaming w s fb prs totalTools index toolCall))) =
       running s"
  by (simp add: execute_tool_call_streaming_def Let_def tool_message_def case_prod_beta
           dispatch_tool_call_running split: sum.splits)

lemma execute_tool_calls_streaming_running:
  "running (snd (snd (execute_tool_calls_streaming w fb prs totalTools index calls acc out s))) =
       running s"
proof (induction calls arbitrary: index acc out s)
  case Nil
  then show ?case by simp
next
  case (Cons toolCall calls)
  obtain r evs s1 where r: "execute_tool_call_streaming w s fb prs totalTools index toolCall = (r, evs, s1)"
    by (cases "execute_tool_call_streaming w s fb prs totalTools index toolCall") auto
  from execute_tool_call_streaming_running[of w s fb prs totalTools index toolCall] r
  have "running s1 = running s" by simp
  with Cons.IH[of "index + 1" "acc @ [r]" "out @ evs" s1] r show ?case by simp
qed

lemma createChatCompletion_running:
  "running (snd (createChatCompletion w s options)) = running s"
  by (simp add: createChatCompletion_state)

lemma followUp_streaming_running:
  "running (snd (followUp_streaming w s options fb am rs out)) = running s"
proof -
  obtain r s1 where r: "createChatCompletion w s (followUp_request options am rs) = (r, s1)"
    by (cases "createChatCompletion w s (followUp_request options am rs)")
  from createChatCompletion_running[of w s "followUp_request options am rs"] r
  have "running s1 = running s" by simp
  with r show ?thesis
    by (simp add: followUp_streaming_def split: sum.splits completion.splits)
qed

lemma createStreamingWithTools_running:
  "running (snd (createStreamingWithTools w s options prs fb)) = running s"
proof -
  obtain r s1 where r: "createChatCompletion w s options = (r, s1)"
    by (cases "createChatCompletion w s options")
  from createChatCompletion_running[of w s options] r have r1: "running s1 = running s" by simp
  show ?thesis
  proof (cases r)
    case (Inl e)
    with r r1 show ?thesis by (simp add: createStreamingWithTools_def)
  next
    case (Inr c)
    show ?thesis
    proof (cases c)
      case (Response x)
      with Inr r r1 show ?thesis by (simp add: createStreamingWithTools_def)
    next
      case (Stream st)
      define d where "d = drain fb (strm_chunks st)"
      define calls where "calls = finalize (ds_buffer d)"
      define out1 where "out1 = ds_out d @ feedback_events fb
                                [ToolExecutionStart (map tc_name calls) (length calls)]"
      obtain results out2 s2 where
        ex: "execute_tool_calls_streaming w fb prs (length calls) 0 calls [] out1 s1 = (results, out2, s2)"
        by (cases "execute_tool_calls_streaming w fb prs (length calls) 0 calls [] out1 s1") auto
      from execute_tool_calls_streaming_running[of w fb prs "length calls" 0 calls "[]" out1 s1] ex r1
      have r2: "running s2 = running s" by simp
      from Stream Inr r r1 r2 ex followUp_streaming_running[of w s2 options fb _ results out2]
      show ?thesis
        by (simp add: createStreamingWithTools_def Let_def d_def[symmetric] calls_def[symmetric]
              out1_def[symmetric] split: option.splits)
    qed
  qed
qed

lemma cleanup_running_subset:
  "set (running (cleanupPerRequestServers prs s)) \<subseteq> set (running s)"
proof (induction prs arbitrary: s)
  case Nil
  then show ?case by simp
next
  case (Cons e prs)
  obtain n i where e: "e = (n, i)" by (cases e)
  have "set (running (case inst_process i of
                        Some h \<Rightarrow> if inst_type i = Command then kill h s else s
                      | None \<Rightarrow> s)) \<subseteq> set (running s)"
    by (auto simp: kill_def split: option.splits)
  with Cons.IH show ?case unfolding e by (simp del: set_removeAll) blast
qed

lemma cleanup_kills:
  assumes "(n, i) \<in> set prs" "inst_type i = Command" "inst_process i = Some h"
  shows "h \<notin> set (running (cleanupPerRequestServers prs s))"
  using assms
proof (induction prs arbitrary: s)
  case Nil
  then show ?case by simp
next
  case (Cons e prs)
  obtain n' i' where e: "e = (n', i')" by (cases e)
  let ?s' = "case inst_process i' of
               Some h' \<Rightarrow> if inst_type i' = Command then kill h' s else s
             | None \<Rightarrow> s"
  show ?case
  proof (cases "(n, i) = (n', i')")
    case True
    with Cons.prems have "h \<notin> set (running ?s')" by (simp add: kill_def)
    with cleanup_running_subset[of prs ?s'] show ?thesis unfolding e by auto
  next
    case False
    with Cons.prems e have "(n, i) \<in> set prs" by auto
    from Cons.IH[OF this Cons.prems(2,3), of ?s'] show ?thesis unfolding e by simp
  qed
qed

text \<open>
  Once the per-request servers of a turn have been started and returned to the caller,
  no subprocess of theirs runs when the turn has ended, whatever the turn did: returned a
  response, failed in the backend call or in the follow-up, or streamed.
\<close>

lemma started_servers_torn_down:
  assumes "start_perRequest w now s options = (Inr (prs, tools), s1)"
    and "(n, i) \<in> set prs" "inst_type i = Command" "inst_process i = Some h"
  shows "h \<notin> set (running (snd (createWithMCPTools w now s options)))
         \<and> h \<notin> set (running (snd (run_turn w now s options)))"
proof -
  from assms(2) have ne: "prs \<noteq> []" by auto
  have "\<exists>s3. snd (createWithMCPTools w now s options) = cleanupPerRequestServers prs s3"
    using assms(1) ne
    by (auto simp: createWithMCPTools_def Let_def case_prod_beta)
  then obtain s3 where s3: "snd (createWithMCPTools w now s options) = cleanupPerRequestServers prs s3"
    by blast
  have a: "h \<notin> set (running (snd (createWithMCPTools w now s options)))"
    unfolding s3 using assms(2-4) by (rule cleanup_kills)
  obtain r s' where c: "createWithMCPTools w now s options = (r, s')"
    by (cases "createWithMCPTools w now s options")
  with a have h: "h \<notin> set (running s')" by simp
  have "running (snd (run_turn w now s options)) = running s'"
    using c createStreamingWithTools_running[of w s']
    by (simp add: run_turn_def case_prod_beta split: sum.splits turn_result.splits option.splits)
  with a h show ?thesis by simp
qed

subsection \<open>The follow-up call\<close>

text \<open>
  The request of the follow-up call has no tools and no tool choice, and its messages are
  those of the request it is built from, the assistant's message and the tool results.
\<close>

lemma followUp_request_shape:
  "req_tools (followUp_request options am results) = None
   \<and> req_tool_choice (followUp_request options am results) = None
   \<and> req_messages (followUp_request options am results) =
       req_messages options @ [AssistantMessage am] @ map ToolMessage results"
  by (simp add: followUp_request_def)

text \<open>
  Non-streaming path: a response with tool calls is followed by exactly one backend call,
  and the response of that call is returned with the tool calls and the tool results
  attached.
\<close>

lemma processToolCalls_followUp:
  assumes "resp_message response = Some msg" "am_tool_calls msg = Some calls" "calls \<noteq> []"
  shows "\<exists>results. map tr_tool_call_id results = map tc_id calls
           \<and> backend_log (snd (processToolCalls w s response originalOptions prs)) =
               backend_log s @ [followUp_request originalOptions msg results]
           \<and> (\<forall>f. \<not> req_stream originalOptions
                   \<and> w_complete w (followUp_request originalOptions msg results) = Inr f \<longrightarrow>
                 fst (processToolCalls w s response originalOptions prs) =
                   Inr (Response (f\<lparr>resp_mcpToolResults := Some results,
                                    resp_originalToolCalls := Some calls\<rparr>)))"
proof -
  obtain results s1 where ex: "execute_tool_calls w prs calls [] s = (results, s1)"
    by (cases "execute_tool_calls w prs calls [] s")
  from execute_tool_calls_results[of w prs calls "[]" s] ex
  have ids: "map tr_tool_call_id results = map tc_id calls" and l1: "backend_log s1 = backend_log s"
    by simp_all
  from ids assms(3) have ne: "results \<noteq> []" by auto
  let ?f = "followUp_request originalOptions msg results"
  obtain r s2 where f: "createChatCompletion w s1 ?f = (r, s2)"
    by (cases "createChatCompletion w s1 ?f")
  from createChatCompletion_state[of w s1 ?f] f l1
  have l2: "backend_log s2 = backend_log s @ [?f]" by simp
  have log: "backend_log (snd (processToolCalls w s response originalOptions prs)) =
             backend_log s @ [?f]"
    using assms ex ne f l2 by (simp add: processToolCalls_def split: sum.splits completion.splits)
  have ret: "\<forall>f. \<not> req_stream originalOptions \<and> w_complete w ?f = Inr f \<longrightarrow>
                 fst (processToolCalls w s response originalOptions prs) =
                   Inr (Response (f\<lparr>resp_mcpToolResults := Some results,
                                    resp_originalToolCalls := Some calls\<rparr>))"
    using assms ex ne
    by (simp add: processToolCalls_def createChatCompletion_def Let_def followUp_request_def)
  from ids log ret show ?thesis by blast
qed

text \<open>
  The summary of the tool phase throws exactly when the content of a result is no string.
\<close>

lemma successful_count_Inl:
  "successful_count rs = Inl e \<Longrightarrow> list_ex (\<lambda>r. \<not> is_text (tr_content r)) rs"
  by (induction rs arbitrary: e) (auto split: content.splits sum.splits)

lemma successful_count_Inr:
  "successful_count rs = Inr k \<Longrightarrow> \<not> list_ex (\<lambda>r. \<not> is_text (tr_content r)) rs"
  by (induction rs arbitrary: k) (auto split: content.splits sum.splits if_splits)

text \<open>
  Streaming path: finalized tool calls are followed by exactly one backend call, unless
  progress notifications are asked for and the content of a result is no string.
\<close>

lemma streaming_followUp:
  assumes "req_stream options" and "w_complete_streaming w options = Inr st"
    and "strm_failure st = None" and "finalize (ds_buffer (drain fb (strm_chunks st))) \<noteq> []"
  shows "\<exists>results. map tr_tool_call_id results =
                      map tc_id (finalize (ds_buffer (drain fb (strm_chunks st))))
           \<and> backend_log (snd (createStreamingWithTools w s options prs fb)) =
               (if fb \<and> list_ex (\<lambda>r. \<not> is_text (tr_content r)) results
                then backend_log s @ [options]
                else backend_log s @ [options,
                       followUp_request options
                         \<lparr>am_content = Some (ds_content (drain fb (strm_chunks st))),
                          am_tool_calls = Some (finalize (ds_buffer (drain fb (strm_chunks st))))\<rparr>
                         results])"
proof -
  define d where "d = drain fb (strm_chunks st)"
  define calls where "calls = finalize (ds_buffer d)"
  define s1 where "s1 = s\<lparr>backend_log := backend_log s @ [options]\<rparr>"
  define am where "am = \<lparr>am_content = Some (ds_content d), am_tool_calls = Some calls\<rparr>"
  define out1 where "out1 = ds_out d @ feedback_events fb
                                [ToolExecutionStart (map tc_name calls) (length calls)]"
  let ?R = "createStreamingWithTools w s options prs fb"
  have first: "createChatCompletion w s options = (Inr (Stream st), s1)"
    using assms by (simp add: createChatCompletion_def s1_def)
  have ne: "calls \<noteq> []" using assms(4) by (simp add: calls_def d_def)
  have has: "ds_hasToolCalls d"
  proof (rule ccontr)
    assume n: "\<not> ds_hasToolCalls d"
    have "\<And>d0 cs. \<not> ds_hasToolCalls (foldl (process_chunk fb) d0 cs) \<Longrightarrow>
            ds_buffer (foldl (process_chunk fb) d0 cs) = ds_buffer d0"
    proof -
      fix d0 cs
      show "\<not> ds_hasToolCalls (foldl (process_chunk fb) d0 cs) \<Longrightarrow>
            ds_buffer (foldl (process_chunk fb) d0 cs) = ds_buffer d0"
      proof (induction cs arbitrary: d0)
        case Nil
        then show ?case by simp
      next
        case (Cons c cs)
        have mono: "\<And>d1 cs1. ds_hasToolCalls d1 \<Longrightarrow> ds_hasToolCalls (foldl (process_chunk fb) d1 cs1)"
        proof -
          fix d1 cs1 show "ds_hasToolCalls d1 \<Longrightarrow> ds_hasToolCalls (foldl (process_chunk fb) d1 cs1)"
            by (induction cs1 arbitrary: d1)
               (simp_all add: process_chunk_def Let_def split: option.splits)
        qed
        from Cons.prems mono[of "process_chunk fb d0 c" cs]
        have nh: "\<not> ds_hasToolCalls (process_chunk fb d0 c)" by auto
        then have "ds_buffer (process_chunk fb d0 c) = ds_buffer d0"
          by (auto simp: process_chunk_def Let_def split: option.splits if_splits)
        with Cons.IH[of "process_chunk fb d0 c"] Cons.prems show ?case by simp
      qed
    qed
    from this[of drain_init "strm_chunks st"] n have "ds_buffer d = []"
      by (simp add: d_def drain_def drain_init_def)
    with ne show False by (simp add: calls_def finalize_def)
  qed
  obtain results out2 s2 where
    ex: "execute_tool_calls_streaming w fb prs (length calls) 0 calls [] out1 s1 = (results, out2, s2)"
    by (cases "execute_tool_calls_streaming w fb prs (length calls) 0 calls [] out1 s1") auto
  from execute_tool_calls_streaming_results[of w fb prs "length calls" 0 calls "[]" out1 s1] ex
  have ids: "map tr_tool_call_id results = map tc_id calls" and log2: "backend_log s2 = backend_log s1"
    by simp_all
  from ids ne have rne: "results \<noteq> []" by auto
  have R: "?R = followUp_streaming w s2 options fb am results out2"
    using has ne rne first assms(3) ex
    by (simp add: createStreamingWithTools_def Let_def d_def[symmetric] calls_def[symmetric]
          out1_def[symmetric] am_def)
  let ?f = "followUp_request options am results"
  obtain r s3 where f: "createChatCompletion w s2 ?f = (r, s3)"
    by (cases "createChatCompletion w s2 ?f")
  from createChatCompletion_state[of w s2 ?f] f log2
  have l3: "backend_log s3 = backend_log s @ [options, ?f]" by (simp add: s1_def)
  have "backend_log (snd ?R) =
         (if fb \<and> list_ex (\<lambda>r. \<not> is_text (tr_content r)) results
          then backend_log s @ [options] else backend_log s @ [options, ?f])"
  proof (cases "successful_count results")
    case (Inl e)
    from successful_count_Inl[OF Inl]
    have "list_ex (\<lambda>r. \<not> is_text (tr_content r)) results" .
    then show ?thesis
      unfolding R using f l3 log2 Inl
      by (simp add: followUp_streaming_def s1_def split: sum.splits completion.splits)
  next
    case (Inr k)
    from successful_count_Inr[OF Inr]
    have "\<not> list_ex (\<lambda>r. \<not> is_text (tr_content r)) results" .
    then show ?thesis
      unfolding R using f l3 log2 Inr
      by (simp add: followUp_streaming_def s1_def split: sum.splits completion.splits)
  qed
  with ids show ?thesis
    unfolding d_def[symmetric] calls_def[symmetric] am_def[symmetric] by blast
qed

subsection \<open>Turns that leave the specification\<close>

text \<open>
  C1. Routing of a tool call: a name that a per-request server offers is tried on the
  per-request servers first, then the global routing table is consulted, and a name in
  neither gives a result saying that the tool requires external execution; so a tool
  that only a per-request server offers is executed by that server. The code does not do
  this. Here the request brings a per-request server that lists the tool \<open>echo\<close>,
  which no global server lists, and the backend asks for \<open>echo\<close>. The test of the
  global routing table comes before \<open>_callToolWithServers\<close>: the result says that the
  tool requires external execution, and no exchange with the per-request server is made
  in the whole turn; its handshake looks the instance up in the global registry and fails
  before any request.
\<close>

theorem per_request_tool_reported_external:
  "map mt_name (result_tools (fst (projr (fst
      (mcpRequest demo_world fs_client ''tmp'' ToolsList None
         (Some (new_instance ''tmp'' (http_server ''http://extra'') Http 2000))))))) = [''echo'']
   \<and> map_has ''echo'' (toolToServerMap fs_client) = False
   \<and> (case fst (createWithMCPTools demo_world 2000 fs_client per_request_echo) of
         Inr (Returned (Response r)) \<Rightarrow>
           resp_mcpToolResults r =
             Some [\<lparr>tr_tool_call_id = ''c1'',
                    tr_content = Text ''Tool echo requires external execution''\<rparr>]
       | _ \<Rightarrow> False)
   \<and> filter (\<lambda>r. hr_url r = Some ''http://extra'')
        (http_log (snd (createWithMCPTools demo_world 2000 fs_client per_request_echo))) = []"
  by code_simp

text \<open>
  C2. Cleanup: the per-request servers started for a turn are torn down, their
  subprocesses killed, when the turn has ended, on every path. The code does this on the
  paths of \<open>started_servers_torn_down\<close>, and not when the exception comes from the
  start of the servers itself. Here the request brings two per-request servers: a
  subprocess that launches, and a definition that names no transport. The second is
  rejected inside \<open>_initializePerRequestServers\<close>, whose map of started instances is
  lost with the exception; the cleanup of the caller sees its own empty map, and the
  turn fails with the subprocess of the first server still running.
\<close>

theorem per_request_subprocess_leaked:
  "running (new_client True []) = []
   \<and> fst (run_turn demo_world 2000 (new_client True []) leaking_request) = FailedWith ConfigError []
   \<and> running (snd (run_turn demo_world 2000 (new_client True []) leaking_request)) = [0]"
  by code_simp

text \<open>
  C6. After a response with executable tool calls exactly one follow-up backend call is
  made, without tools and tool choice, on the original messages, the assistant's message
  and the tool results in the order of execution; the non-streaming path returns its
  response with the tool calls and the tool results attached. The code does this on the
  paths of \<open>processToolCalls_followUp\<close> and \<open>streaming_followUp\<close>, and not on one
  path: in a streaming turn with progress notifications, a tool whose reply has neither
  a result nor an error gives a result message whose content is \<open>undefined\<close>; the
  summary of the tool phase reads it as a string and throws, and the turn fails after one
  backend call, without the follow-up. Without the notifications the same turn makes the
  two calls.
\<close>

theorem followUp_lost_to_summary:
  "fst (run_turn demo_world 2000 fs_client feedback_request) =
     FailedWith (TypeError (cannot_read ''startsWith''))
       [EventItem ToolCallDetected,
        ChunkItem (delta_chunk \<lparr>tcd_index = 0, tcd_id = Some ''c1'', tcd_name = Some ''ping'',
                                tcd_arguments = Some ''{}''\<rparr>),
        EventItem (ToolExecutionStart [''ping''] 1),
        EventItem (ToolExecuting ''ping'' 1 1),
        EventItem (ToolCompleted ''ping'')]
   \<and> length (backend_log (snd (run_turn demo_world 2000 fs_client feedback_request))) = 1
   \<and> length (backend_log (snd (run_turn demo_world 2000 fs_client streaming_request))) = 2"
  by code_simp

end
